theory Spec2Isabelle
  imports Main
begin

section \<open>JavaScript values\<close>

text \<open>
  Keys, cached values and call parameters have the TypeScript type \<open>unknown\<close>. The
  manager asks of such a value whether it is a string (\<open>typeof key === "string"\<close>),
  whether it is truthy, whether it is a Promise, and it builds the array
  \<open>[target.name, parameters]\<close>. \<open>JFun\<close>, \<open>JObj\<close>, \<open>JArr\<close> and \<open>JPromise\<close> are the
  caller's functions, objects, arrays and promises; an object or promise is a reference.
  \<open>JDate\<close> is a \<open>Date\<close> by its \<open>valueOf()\<close>. \<open>JBuiltin n\<close> is the method \<open>n\<close> of
  \<open>Object.prototype\<close> (for \<open>constructor\<close>, the function \<open>Object\<close>) and
  \<open>JObjectPrototype\<close> is \<open>Object.prototype\<close> itself: a dictionary that is a plain
  \<open>{}\<close> finds them under their names. Numbers are integers (timestamps and ages are
  whole milliseconds); \<open>NaN\<close> and fractions are left out.
\<close>

datatype jsval =
    JUndefined
  | JNull
  | JBool bool
  | JNum int
  | JStr string
  | JArr "jsval list"
  | JFun string
  | JObj nat
  | JPromise nat
  | JDate int
  | JBuiltin string
  | JObjectPrototype

text \<open>JavaScript truthiness, as \<open>if (policyKey)\<close> uses it; a function or object is truthy.\<close>

fun truthy :: "jsval \<Rightarrow> bool" where
  "truthy JUndefined = False"
| "truthy JNull = False"
| "truthy (JBool b) = b"
| "truthy (JNum n) = (n \<noteq> 0)"
| "truthy (JStr s) = (s \<noteq> [])"
| "truthy _ = True"

text \<open>\<open>value instanceof Promise\<close>\<close>

fun instanceofPromise :: "jsval \<Rightarrow> bool" where
  "instanceofPromise (JPromise p) = True"
| "instanceofPromise _ = False"

text \<open>
  What a dictionary lookup \<open>d[k]\<close> gives: a value that the code stored there, or any
  other value, found through the prototype chain; \<open>Other JUndefined\<close> is \<open>undefined\<close>.
\<close>

datatype 'a property = Item 'a | Other jsval

text \<open>
  A value that is read where the code expects a cache item or a policy. The code is
  compiled in strict mode (tsconfig.json, \<open>strict\<close>), where an assignment to a property of
  a string, number or boolean throws. Of \<open>Object.prototype\<close>, its methods and a \<open>Date\<close>
  the properties are known (none of those that the manager reads); the properties of a
  caller's object, array, function or promise are not part of this model.
\<close>

datatype foreign = Falsy | Primitive | Prototype | Plain | Opaque

fun classify :: "jsval \<Rightarrow> foreign" where
  "classify JUndefined = Falsy"
| "classify JNull = Falsy"
| "classify (JBool b) = (if b then Primitive else Falsy)"
| "classify (JNum n) = (if n = 0 then Falsy else Primitive)"
| "classify (JStr s) = (if s = [] then Falsy else Primitive)"
| "classify JObjectPrototype = Prototype"
| "classify (JBuiltin n) = Plain"
| "classify (JDate t) = Plain"
| "classify _ = Opaque"

text \<open>
  The properties that every plain object inherits from \<open>Object.prototype\<close>: its methods,
  the accessor \<open>__proto__\<close>, whose getter returns the prototype, and \<open>accessed\<close> once
  the manager has assigned it there (\<open>polluted\<close> is that timestamp).
\<close>

definition prototypeMethods :: "string list" where
  "prototypeMethods =
     [''constructor'', ''hasOwnProperty'', ''isPrototypeOf'', ''propertyIsEnumerable'',
      ''toLocaleString'', ''toString'', ''valueOf'', ''__defineGetter__'',
      ''__defineSetter__'', ''__lookupGetter__'', ''__lookupSetter__'']"

definition objectPrototype :: "int option \<Rightarrow> string \<Rightarrow> jsval" where
  "objectPrototype polluted k =
     (if k \<in> set prototypeMethods then JBuiltin k
      else if k = ''__proto__'' then JObjectPrototype
      else if k = ''accessed'' then (case polluted of Some t \<Rightarrow> JDate t | None \<Rightarrow> JUndefined)
      else JUndefined)"

section \<open>Data model\<close>

text \<open>
  \<open>ICacheItem\<close> (cache-item.ts). An optional field is an \<open>option\<close>; \<open>policyKey\<close> is
  \<open>unknown\<close>, so its absence is \<open>JUndefined\<close>. Dates are their \<open>valueOf()\<close>, the
  milliseconds since the epoch. The field \<open>value\<close> is called \<open>val\<close>.
\<close>

record ICacheItem =
  key :: jsval
  val :: jsval
  "context" :: "string option"
  policyKey :: jsval
  maxAge :: "int option"
  sliding :: "bool option"
  created :: int
  accessed :: int

text \<open>
  \<open>ICachePolicy\<close> (cache-policy.ts): \<open>maxAge\<close> is a number or a function of the call's
  parameters. The fields carry the prefix \<open>p_\<close> where \<open>ICacheItem\<close> has a field of that
  name.
\<close>

datatype max_age = MaxAgeNumber int | MaxAgeFunction "jsval list \<Rightarrow> int"

record ICachePolicy =
  p_maxAge :: max_age
  p_sliding :: "bool option"
  keepRejectedPromise :: "bool option"

text \<open>
  \<open>ICacheOptions\<close> (cache-options.ts): \<open>context\<close> is a string or a function returning a
  string or \<open>undefined\<close>; \<open>policyKey\<close> is any value or a function returning one. A
  function used as policy key is hashed as the function value \<open>JFun name\<close>.
\<close>

datatype context_option = ContextString string | ContextFunction "jsval list \<Rightarrow> string option"

datatype policy_key = PolicyKeyValue jsval | PolicyKeyFunction string "jsval list \<Rightarrow> jsval"

record ICacheOptions =
  o_context :: "context_option option"
  o_policyKey :: policy_key
  o_policy :: "ICachePolicy option"

text \<open>
  The properties of a cache item and of a policy, as a lookup through a prototype chain
  reads them when the object has become the prototype of a dictionary. A field that is
  absent or \<open>undefined\<close> is \<open>None\<close>: the lookup goes on to \<open>Object.prototype\<close>, which
  has no property of these names but, once assigned, \<open>accessed\<close>.
\<close>

definition item_property :: "ICacheItem \<Rightarrow> string \<Rightarrow> jsval option" where
  "item_property it k =
     (if k = ''key'' then Some (key it)
      else if k = ''value'' then Some (val it)
      else if k = ''created'' then Some (JDate (created it))
      else if k = ''accessed'' then Some (JDate (accessed it))
      else if k = ''context'' then map_option JStr (context it)
      else if k = ''policyKey'' then Some (policyKey it)
      else if k = ''maxAge'' then map_option JNum (maxAge it)
      else if k = ''sliding'' then map_option JBool (sliding it)
      else None)"

definition policy_property :: "ICachePolicy \<Rightarrow> string \<Rightarrow> jsval option" where
  "policy_property p k =
     (if k = ''maxAge'' then
        Some (case p_maxAge p of MaxAgeNumber n \<Rightarrow> JNum n | MaxAgeFunction f \<Rightarrow> JFun ''maxAge'')
      else if k = ''sliding'' then map_option JBool (p_sliding p)
      else if k = ''keepRejectedPromise'' then map_option JBool (keepRejectedPromise p)
      else None)"

text \<open>
  A dictionary \<open>{ [hash: string]: T }\<close> is a plain object: \<open>own\<close> are its own
  properties. The assignment \<open>d["__proto__"] = x\<close> creates no property; it makes the
  object \<open>x\<close> the prototype of \<open>d\<close>, which is \<open>proto = Some x\<close>.
\<close>

record 'a dictionary =
  own :: "string \<rightharpoonup> 'a"
  proto :: "'a option"

text \<open>
  \<open>d[k]\<close>, with the properties \<open>props\<close> of a \<open>T\<close>: the getter of \<open>__proto__\<close>
  returns the prototype, an own property is found first, and the chain goes on through
  the prototype to \<open>Object.prototype\<close>.
\<close>

definition lookup ::
  "('a \<Rightarrow> string \<Rightarrow> jsval option) \<Rightarrow> int option \<Rightarrow> 'a dictionary \<Rightarrow> string \<Rightarrow> 'a property" where
  "lookup props polluted d k =
     (if k = ''__proto__'' then
        (case proto d of Some p \<Rightarrow> Item p | None \<Rightarrow> Other JObjectPrototype)
      else
        (case own d k of
           Some x \<Rightarrow> Item x
         | None \<Rightarrow>
             (case proto d of
                None \<Rightarrow> Other (objectPrototype polluted k)
              | Some p \<Rightarrow>
                  (case props p k of
                     Some v \<Rightarrow> Other v
                   | None \<Rightarrow> Other (objectPrototype polluted k)))))"

text \<open>\<open>d[k] = x\<close>\<close>

definition assign :: "'a dictionary \<Rightarrow> string \<Rightarrow> 'a \<Rightarrow> 'a dictionary" where
  "assign d k x = (if k = ''__proto__'' then d\<lparr>proto := Some x\<rparr> else d\<lparr>own := (own d)(k \<mapsto> x)\<rparr>)"

text \<open>\<open>delete d[k]\<close> removes an own property and nothing else.\<close>

definition delete :: "'a dictionary \<Rightarrow> string \<Rightarrow> 'a dictionary" where
  "delete d k = d\<lparr>own := (own d)(k := None)\<rparr>"

text \<open>\<open>{}\<close>\<close>

definition empty_object :: "'a dictionary" where
  "empty_object = \<lparr>own = Map.empty, proto = None\<rparr>"

text \<open>
  The state that the operations read and write: the \<open>_cache\<close> dictionary of the
  \<open>MemoryCache\<close> behind \<open>storage\<close>, the manager's \<open>_policies\<close> and \<open>_contexts\<close>, and
  two parts of the JavaScript heap that the manager writes. \<open>prototypeAccessed\<close> is
  \<open>Object.prototype.accessed\<close>, which \<open>getCacheItem\<close> assigns when the storage gives
  it \<open>Object.prototype\<close> for an item. \<open>catchHandlers\<close> are the pairs \<open>(p, key)\<close> for
  which \<open>value.catch(() => this.remove(key))\<close> has been called on the promise \<open>p\<close>,
  oldest first. A \<open>Set<string>\<close> iterates in insertion order and holds no duplicates:
  a list, added to at the end. No code assigns \<open>_contexts["__proto__"]\<close>, so of
  \<open>_contexts\<close> the own properties are all there is.
\<close>

record CacheManager =
  storage :: "ICacheItem dictionary"
  policies :: "ICachePolicy dictionary"
  contexts :: "string \<rightharpoonup> string list"
  prototypeAccessed :: "int option"
  catchHandlers :: "(nat \<times> jsval) list"

datatype error = TypeError | OpaqueObject

section \<open>MemoryCache (memory-cache.ts)\<close>

text \<open>\<open>polluted\<close> is \<open>Object.prototype.accessed\<close> at the time of the call.\<close>

definition mc_get :: "int option \<Rightarrow> string \<Rightarrow> ICacheItem dictionary \<Rightarrow> ICacheItem property" where
  "mc_get polluted hash cache = lookup item_property polluted cache hash"

definition mc_set :: "string \<Rightarrow> ICacheItem \<Rightarrow> ICacheItem dictionary \<Rightarrow> ICacheItem dictionary" where
  "mc_set hash cacheItem cache = assign cache hash cacheItem"

definition mc_remove ::
  "int option \<Rightarrow> string \<Rightarrow> ICacheItem dictionary \<Rightarrow> ICacheItem property \<times> ICacheItem dictionary" where
  "mc_remove polluted hash cache =
     (case lookup item_property polluted cache hash of
        Item item \<Rightarrow> (Item item, delete cache hash)
      | Other v \<Rightarrow>
          if truthy v then (Other v, delete cache hash) else (Other JUndefined, cache))"

definition mc_clear :: "ICacheItem dictionary \<Rightarrow> ICacheItem dictionary" where
  "mc_clear cache = empty_object"

section \<open>The class CacheManager (cache-policy.ts)\<close>

text \<open>
  \<open>getHash\<close>: a string key is its own hash, any other key goes through the library
  \<open>object-hash\<close>, which is not part of this repository: every operation takes it as the
  parameter \<open>objHash\<close>.
\<close>

definition getHash :: "(jsval \<Rightarrow> string) \<Rightarrow> jsval \<Rightarrow> string" where
  "getHash objHash k = (case k of JStr s \<Rightarrow> s | _ \<Rightarrow> objHash k)"

text \<open>
  \<open>expired(cacheItem, time?)\<close>. \<open>clock\<close> is what \<open>new Date()\<close> reads when the
  caller passes no time. \<open>!cacheItem.maxAge\<close> holds for an absent and for a zero age.
\<close>

definition expired :: "int \<Rightarrow> ICacheItem \<Rightarrow> int option \<Rightarrow> bool" where
  "expired clock cacheItem time =
     (case maxAge cacheItem of
        None \<Rightarrow> False
      | Some m \<Rightarrow>
          if m = 0 then False
          else
            let start = (if sliding cacheItem = Some True then accessed cacheItem
                         else created cacheItem);
                age = (case time of Some t \<Rightarrow> t | None \<Rightarrow> clock) - start
            in age > m)"

text \<open>
  \<open>getCacheItem(key)\<close>. \<open>now\<close> is the \<open>new Date()\<close> of the call. The result
  \<open>Other JUndefined\<close> is \<open>undefined\<close>. The assignment \<open>cacheItem.accessed = now\<close>
  writes to the object that the storage holds, as the own property \<open>keyHash\<close> or, for
  \<open>__proto__\<close>, as the prototype of its dictionary: where \<open>assign\<close> writes. A value that is not a cache item has no
  \<open>maxAge\<close> and so is not expired; the assignment of \<open>accessed\<close> to it throws for a
  string, number or boolean, and changes \<open>Object.prototype\<close> when that is the value.
\<close>

definition getCacheItem ::
  "(jsval \<Rightarrow> string) \<Rightarrow> jsval \<Rightarrow> int \<Rightarrow> CacheManager \<Rightarrow>
     (error + ICacheItem property) \<times> CacheManager" where
  "getCacheItem objHash k now m =
     (let keyHash = getHash objHash k in
      case mc_get (prototypeAccessed m) keyHash (storage m) of
        Item cacheItem \<Rightarrow>
          if expired now cacheItem (Some now)
          then (Inr (Other JUndefined),
                m\<lparr>storage := snd (mc_remove (prototypeAccessed m) keyHash (storage m))\<rparr>)
          else
            let cacheItem' = cacheItem\<lparr>accessed := now\<rparr>
            in (Inr (Item cacheItem'), m\<lparr>storage := assign (storage m) keyHash cacheItem'\<rparr>)
      | Other v \<Rightarrow>
          (case classify v of
             Falsy \<Rightarrow> (Inr (Other JUndefined), m)
           | Primitive \<Rightarrow> (Inl TypeError, m)
           | Prototype \<Rightarrow> (Inr (Other v), m\<lparr>prototypeAccessed := Some now\<rparr>)
           | Plain \<Rightarrow> (Inr (Other v), m)
           | Opaque \<Rightarrow> (Inl OpaqueObject, m)))"

text \<open>\<open>Set.prototype.add\<close> on the insertion-ordered list; \<open>delete\<close> is \<open>removeAll\<close>.\<close>

definition set_add :: "string \<Rightarrow> string list \<Rightarrow> string list" where
  "set_add h hs = (if h \<in> set hs then hs else hs @ [h])"

text \<open>
  \<open>setCacheItem(cacheItem)\<close>. Where \<open>this._contexts[context]\<close> finds an inherited
  property, \<open>hashes\<close> is truthy and has no method \<open>add\<close>: the call throws, after the
  entry has been stored.
\<close>

definition setCacheItem ::
  "(jsval \<Rightarrow> string) \<Rightarrow> ICacheItem \<Rightarrow> CacheManager \<Rightarrow> (error + unit) \<times> CacheManager" where
  "setCacheItem objHash cacheItem m =
     (let keyHash = getHash objHash (key cacheItem);
          m1 = m\<lparr>storage := mc_set keyHash cacheItem (storage m)\<rparr>
      in case context cacheItem of
           None \<Rightarrow> (Inr (), m1)
         | Some c \<Rightarrow>
             (case contexts m1 c of
                Some hs \<Rightarrow> (Inr (), m1\<lparr>contexts := (contexts m1)(c \<mapsto> set_add keyHash hs)\<rparr>)
              | None \<Rightarrow>
                  if truthy (objectPrototype (prototypeAccessed m1) c) then (Inl TypeError, m1)
                  else (Inr (), m1\<lparr>contexts := (contexts m1)(c \<mapsto> set_add keyHash [])\<rparr>)))"

text \<open>
  \<open>has(key)\<close> calls \<open>expired\<close> without a time, which then reads the clock itself. The
  method assigns nothing; the manager it returns is the one it was given.
\<close>

definition has ::
  "(jsval \<Rightarrow> string) \<Rightarrow> jsval \<Rightarrow> int \<Rightarrow> CacheManager \<Rightarrow> (error + bool) \<times> CacheManager" where
  "has objHash k now m =
     (let keyHash = getHash objHash k in
      case mc_get (prototypeAccessed m) keyHash (storage m) of
        Item cacheItem \<Rightarrow> (Inr (\<not> expired now cacheItem None), m)
      | Other v \<Rightarrow>
          (case classify v of
             Falsy \<Rightarrow> (Inr False, m)
           | Opaque \<Rightarrow> (Inl OpaqueObject, m)
           | _ \<Rightarrow> (Inr True, m)))"

text \<open>
  \<open>get(key)\<close>: of a value that is not a cache item, \<open>cacheItem.value\<close> is
  \<open>undefined\<close>.
\<close>

definition get ::
  "(jsval \<Rightarrow> string) \<Rightarrow> jsval \<Rightarrow> int \<Rightarrow> CacheManager \<Rightarrow> (error + jsval) \<times> CacheManager" where
  "get objHash k now m =
     (case getCacheItem objHash k now m of
        (Inl e, m') \<Rightarrow> (Inl e, m')
      | (Inr (Item cacheItem), m') \<Rightarrow> (Inr (val cacheItem), m')
      | (Inr (Other v), m') \<Rightarrow> (Inr JUndefined, m'))"

text \<open>
  \<open>remove(key)\<close>, called \<open>remove_item\<close> here. \<open>if (context)\<close> is false for the
  empty string and for the \<open>undefined\<close> that a value other than a cache item has
  there. \<open>this._contexts[context].delete(keyHash)\<close> throws a TypeError when the
  registry has no set for the context (\<open>undefined\<close>, or an inherited property, has no
  method \<open>delete\<close>); the storage has been asked to remove by then, so the state is
  returned beside the error.
\<close>

definition remove_item ::
  "(jsval \<Rightarrow> string) \<Rightarrow> jsval \<Rightarrow> CacheManager \<Rightarrow> (error + bool) \<times> CacheManager" where
  "remove_item objHash k m =
     (let keyHash = getHash objHash k;
          m1 = m\<lparr>storage := snd (mc_remove (prototypeAccessed m) keyHash (storage m))\<rparr>
      in case fst (mc_remove (prototypeAccessed m) keyHash (storage m)) of
           Other v \<Rightarrow>
             (case classify v of
                Falsy \<Rightarrow> (Inr False, m1)
              | Opaque \<Rightarrow> (Inl OpaqueObject, m1)
              | _ \<Rightarrow> (Inr True, m1))
         | Item cacheItem \<Rightarrow>
             (case context cacheItem of
                None \<Rightarrow> (Inr True, m1)
              | Some c \<Rightarrow>
                  if c = [] then (Inr True, m1)
                  else
                    (case contexts m1 c of
                       None \<Rightarrow> (Inl TypeError, m1)
                     | Some hs \<Rightarrow>
                         (Inr True, m1\<lparr>contexts := (contexts m1)(c \<mapsto> removeAll keyHash hs)\<rparr>))))"

text \<open>
  \<open>removeContext(context)\<close>: the loop over the set is a fold over the list. An
  inherited property found for the context is truthy and not iterable: the loop throws.
\<close>

definition removeContext :: "string \<Rightarrow> CacheManager \<Rightarrow> (error + unit) \<times> CacheManager" where
  "removeContext c m =
     (case contexts m c of
        None \<Rightarrow>
          if truthy (objectPrototype (prototypeAccessed m) c) then (Inl TypeError, m)
          else (Inr (), m)
      | Some hashes \<Rightarrow>
          (Inr (),
           m\<lparr>storage := fold (\<lambda>keyHash cache. snd (mc_remove (prototypeAccessed m) keyHash cache))
                          hashes (storage m),
             contexts := (contexts m)(c := None)\<rparr>))"

text \<open>\<open>clear()\<close>\<close>

definition clear :: "CacheManager \<Rightarrow> CacheManager" where
  "clear m = m\<lparr>storage := mc_clear (storage m), contexts := Map.empty\<rparr>"

text \<open>\<open>setCachePolicy(policyKey, policy)\<close>\<close>

definition setCachePolicy ::
  "(jsval \<Rightarrow> string) \<Rightarrow> jsval \<Rightarrow> ICachePolicy \<Rightarrow> CacheManager \<Rightarrow> CacheManager" where
  "setCachePolicy objHash pk policy m =
     m\<lparr>policies := assign (policies m) (getHash objHash pk) policy\<rparr>"

subsection \<open>The write path\<close>

text \<open>
  \<open>parameters ? f(...parameters) : f()\<close>: the arguments of a call to a function of the
  options.
\<close>

definition call_args :: "jsval list option \<Rightarrow> jsval list" where
  "call_args parameters = (case parameters of Some ps \<Rightarrow> ps | None \<Rightarrow> [])"

text \<open>
  Lines 125 to 129 of \<open>set\<close>: a truthy \<open>options.context\<close> (a function, or a string that is
  not empty) gives the entry its context.
\<close>

definition set_context :: "ICacheOptions \<Rightarrow> jsval list option \<Rightarrow> ICacheItem \<Rightarrow> ICacheItem" where
  "set_context options parameters cacheItem =
     (case o_context options of
        None \<Rightarrow> cacheItem
      | Some (ContextString s) \<Rightarrow>
          if s = [] then cacheItem else cacheItem\<lparr>context := Some s\<rparr>
      | Some (ContextFunction f) \<Rightarrow> cacheItem\<lparr>context := f (call_args parameters)\<rparr>)"

text \<open>
  Lines 132 to 142 of \<open>set\<close>. With a truthy \<open>policyKey\<close> the entry records the key (the
  result of the call when it is a function) and \<open>this._policies\<close> is read at the hash of
  \<open>options.policyKey\<close> itself; when that gives nothing truthy, \<open>options.policy\<close> is
  the policy. What the registry gives may be an inherited property.
\<close>

fun policyKey_truthy :: "policy_key \<Rightarrow> bool" where
  "policyKey_truthy (PolicyKeyValue v) = truthy v"
| "policyKey_truthy (PolicyKeyFunction n f) = True"

fun policyKey_hash :: "(jsval \<Rightarrow> string) \<Rightarrow> policy_key \<Rightarrow> string" where
  "policyKey_hash objHash (PolicyKeyValue v) = getHash objHash v"
| "policyKey_hash objHash (PolicyKeyFunction n f) = getHash objHash (JFun n)"

definition set_policyKey :: "ICacheOptions \<Rightarrow> jsval list option \<Rightarrow> ICacheItem \<Rightarrow> ICacheItem" where
  "set_policyKey options parameters cacheItem =
     (if policyKey_truthy (o_policyKey options)
      then cacheItem\<lparr>policyKey :=
             (case o_policyKey options of
                PolicyKeyFunction n f \<Rightarrow> f (call_args parameters)
              | PolicyKeyValue v \<Rightarrow> v)\<rparr>
      else cacheItem)"

definition resolve_policy ::
  "(jsval \<Rightarrow> string) \<Rightarrow> ICacheOptions option \<Rightarrow> CacheManager \<Rightarrow> ICachePolicy property" where
  "resolve_policy objHash options m =
     (case options of
        None \<Rightarrow> Other JUndefined
      | Some opts \<Rightarrow>
          (case (if policyKey_truthy (o_policyKey opts)
                 then lookup policy_property (prototypeAccessed m) (policies m)
                        (policyKey_hash objHash (o_policyKey opts))
                 else Other JUndefined) of
             Item policy \<Rightarrow> Item policy
           | Other v \<Rightarrow>
               if truthy v then Other v
               else (case o_policy opts of
                       Some policy \<Rightarrow> Item policy
                     | None \<Rightarrow> Other JUndefined)))"

text \<open>\<open>value.catch(() => this.remove(key))\<close> on line 160.\<close>

definition catch_remove :: "jsval \<Rightarrow> jsval \<Rightarrow> CacheManager \<Rightarrow> CacheManager" where
  "catch_remove v k m =
     (case v of
        JPromise p \<Rightarrow> m\<lparr>catchHandlers := catchHandlers m @ [(p, k)]\<rparr>
      | _ \<Rightarrow> m)"

text \<open>
  \<open>set(key, value, options?, parameters?)\<close>, called \<open>set_value\<close> here. \<open>store\<close> is
  the tail of the method from line 157 on, which the early \<open>return\<close> of line 147 skips.
  A truthy value that is not a policy has no \<open>maxAge\<close>: line 146 is false for
  \<open>undefined\<close> and line 152 calls it, which throws.
\<close>

definition set_value ::
  "(jsval \<Rightarrow> string) \<Rightarrow> jsval \<Rightarrow> jsval \<Rightarrow> ICacheOptions option \<Rightarrow> jsval list option \<Rightarrow> int \<Rightarrow>
     CacheManager \<Rightarrow> (error + unit) \<times> CacheManager" where
  "set_value objHash k v options parameters now m =
     (let cacheItem = \<lparr>key = k, val = v, context = None, policyKey = JUndefined,
                       maxAge = None, sliding = None, created = now, accessed = now\<rparr>;
          cacheItem1 = (case options of
                          None \<Rightarrow> cacheItem
                        | Some opts \<Rightarrow>
                            set_policyKey opts parameters (set_context opts parameters cacheItem));
          policy = resolve_policy objHash options m;
          keep = (case policy of Item p \<Rightarrow> keepRejectedPromise p = Some True | Other x \<Rightarrow> False);
          store = (\<lambda>item. setCacheItem objHash item
                     (if \<not> keep \<and> instanceofPromise v then catch_remove v k m else m))
      in case policy of
           Other x \<Rightarrow>
             (case classify x of
                Falsy \<Rightarrow> store cacheItem1
              | Opaque \<Rightarrow> (Inl OpaqueObject, m)
              | _ \<Rightarrow> (Inl TypeError, m))
         | Item p \<Rightarrow>
             (case p_maxAge p of
                MaxAgeNumber n \<Rightarrow>
                  if n = 0 then (Inr (), m)
                  else store (cacheItem1\<lparr>maxAge := Some n, sliding := p_sliding p\<rparr>)
              | MaxAgeFunction f \<Rightarrow>
                  store (cacheItem1\<lparr>maxAge := Some (f (call_args parameters)),
                                    sliding := p_sliding p\<rparr>)))"

subsection \<open>Wrapping a callable\<close>

text \<open>
  \<open>wrap(target, cacheOptions?, getKey?)\<close> applied to the parameters of one call of the
  wrapped function. A target is its \<open>name\<close> and its body; what the body does beyond
  returning a value is a change of a state \<open>'w\<close> of its own, so a call that leaves \<open>'w\<close>
  as it was has not run the target. \<open>now\<close> is the clock of \<open>getCacheItem\<close> and \<open>now'\<close>
  the clock of \<open>set\<close>, after the target has run.
\<close>

definition wrap ::
  "(jsval \<Rightarrow> string) \<Rightarrow> string \<times> (jsval list \<Rightarrow> 'w \<Rightarrow> jsval \<times> 'w) \<Rightarrow> ICacheOptions option \<Rightarrow>
     (jsval list \<Rightarrow> jsval) option \<Rightarrow> jsval list \<Rightarrow> int \<Rightarrow> int \<Rightarrow> 'w \<times> CacheManager \<Rightarrow>
     (error + jsval) \<times> 'w \<times> CacheManager" where
  "wrap objHash target cacheOptions getKey parameters now now' s =
     (let k = (case getKey of
                 Some g \<Rightarrow> g parameters
               | None \<Rightarrow> JArr [JStr (fst target), JArr parameters]);
          miss = (\<lambda>m1. case snd target parameters (fst s) of
                    (v, w') \<Rightarrow>
                      (case set_value objHash k v cacheOptions (Some parameters) now' m1 of
                         (Inl e, m2) \<Rightarrow> (Inl e, w', m2)
                       | (Inr u, m2) \<Rightarrow> (Inr v, w', m2)))
      in case getCacheItem objHash k now (snd s) of
           (Inl e, m1) \<Rightarrow> (Inl e, fst s, m1)
         | (Inr (Item cacheItem), m1) \<Rightarrow> (Inr (val cacheItem), fst s, m1)
         | (Inr (Other x), m1) \<Rightarrow>
             if truthy x then (Inr JUndefined, fst s, m1) else miss m1)"

subsection \<open>A promise rejects\<close>

text \<open>
  When the promise \<open>p\<close> rejects, the JavaScript runtime runs the handlers attached to it
  in the order of their attachment, each once. A handler of \<open>set\<close> calls \<open>remove\<close>; an
  error it throws rejects the promise that \<open>catch\<close> returned and stops nothing else.
\<close>

definition rejects :: "(jsval \<Rightarrow> string) \<Rightarrow> nat \<Rightarrow> CacheManager \<Rightarrow> CacheManager" where
  "rejects objHash p m =
     fold (\<lambda>h m'. if fst h = p then snd (remove_item objHash (snd h) m') else m')
       (catchHandlers m)
       (m\<lparr>catchHandlers := filter (\<lambda>h. fst h \<noteq> p) (catchHandlers m)\<rparr>)"

subsection \<open>Ordinary hashes\<close>

text \<open>
  A hash is ordinary in a state when the storage dictionary finds nothing truthy under
  it unless it has an own property of that name: the hash is not \<open>__proto__\<close> and
  names no property that the dictionary inherits.
\<close>

definition ordinary :: "CacheManager \<Rightarrow> string \<Rightarrow> bool" where
  "ordinary m h =
     (case lookup item_property (prototypeAccessed m) (delete (storage m) h) h of
        Item x \<Rightarrow> False
      | Other v \<Rightarrow> \<not> truthy v)"

section \<open>Example values\<close>

text \<open>
  Values for the examples below. \<open>hash0\<close> stands for \<open>object-hash\<close> where its
  results do not matter: the keys are strings, which \<open>getHash\<close> never passes to it, or
  there is one key only. \<open>empty_manager\<close> is the state of
  \<open>new CacheManager(new MemoryCache())\<close> in a fresh JavaScript realm.
\<close>

abbreviation hash0 :: "jsval \<Rightarrow> string" where
  "hash0 \<equiv> (\<lambda>v. ''#'')"

abbreviation empty_manager :: CacheManager where
  "empty_manager \<equiv>
     \<lparr>storage = \<lparr>own = Map.empty, proto = None\<rparr>,
      policies = \<lparr>own = Map.empty, proto = None\<rparr>,
      contexts = Map.empty, prototypeAccessed = None, catchHandlers = []\<rparr>"

abbreviation item100 :: ICacheItem where
  "item100 \<equiv> \<lparr>key = JStr ''k'', val = JObj 7, context = None, policyKey = JUndefined,
               maxAge = Some 100, sliding = Some False, created = 0, accessed = 0\<rparr>"

abbreviation manager100 :: CacheManager where
  "manager100 \<equiv>
     \<lparr>storage = \<lparr>own = [''k'' \<mapsto> item100], proto = None\<rparr>,
      policies = \<lparr>own = Map.empty, proto = None\<rparr>,
      contexts = Map.empty, prototypeAccessed = None, catchHandlers = []\<rparr>"

abbreviation policy_of :: "max_age \<Rightarrow> bool option \<Rightarrow> ICacheOptions" where
  "policy_of a keep \<equiv>
     \<lparr>o_context = None, o_policyKey = PolicyKeyValue JUndefined,
      o_policy = Some \<lparr>p_maxAge = a, p_sliding = None, keepRejectedPromise = keep\<rparr>\<rparr>"

abbreviation context_of :: "string \<Rightarrow> max_age \<Rightarrow> ICacheOptions" where
  "context_of c a \<equiv>
     \<lparr>o_context = Some (ContextString c), o_policyKey = PolicyKeyValue JUndefined,
      o_policy = Some \<lparr>p_maxAge = a, p_sliding = None, keepRejectedPromise = None\<rparr>\<rparr>"

abbreviation itemA :: ICacheItem where
  "itemA \<equiv> \<lparr>key = JStr ''k'', val = JObj 7, context = Some ''A'', policyKey = JUndefined,
             maxAge = Some 10, sliding = None, created = 0, accessed = 0\<rparr>"

abbreviation managerA :: CacheManager where
  "managerA \<equiv>
     \<lparr>storage = \<lparr>own = [''k'' \<mapsto> itemA], proto = None\<rparr>,
      policies = \<lparr>own = Map.empty, proto = None\<rparr>,
      contexts = [''A'' \<mapsto> [''k'']], prototypeAccessed = None, catchHandlers = []\<rparr>"

text \<open>
  For the wrapped callable: a hash that tells the key of \<open>f(1)\<close> from every other key,
  and a manager that holds the result of \<open>f(1)\<close>.
\<close>

abbreviation hashW :: "jsval \<Rightarrow> string" where
  "hashW \<equiv> (\<lambda>v. if v = JArr [JStr ''f'', JArr [JNum 1]] then ''h1'' else ''h2'')"

abbreviation itemW :: ICacheItem where
  "itemW \<equiv> \<lparr>key = JArr [JStr ''f'', JArr [JNum 1]], val = JObj 7, context = None,
             policyKey = JUndefined, maxAge = None, sliding = None, created = 0, accessed = 0\<rparr>"

abbreviation managerW :: CacheManager where
  "managerW \<equiv>
     \<lparr>storage = \<lparr>own = [''h1'' \<mapsto> itemW], proto = None\<rparr>,
      policies = \<lparr>own = Map.empty, proto = None\<rparr>,
      contexts = Map.empty, prototypeAccessed = None, catchHandlers = []\<rparr>"

section \<open>Auxiliary facts\<close>

lemma expired_clock: "expired now e None = expired now e (Some now)"
  by (simp add: expired_def Let_def split: option.splits)

lemma set_context_fields [simp]:
  "key (set_context opts ps i) = key i" "val (set_context opts ps i) = val i"
  "maxAge (set_context opts ps i) = maxAge i" "sliding (set_context opts ps i) = sliding i"
  "created (set_context opts ps i) = created i" "accessed (set_context opts ps i) = accessed i"
  by (auto simp: set_context_def split: option.splits context_option.splits)

lemma set_policyKey_fields [simp]:
  "key (set_policyKey opts ps i) = key i" "val (set_policyKey opts ps i) = val i"
  "maxAge (set_policyKey opts ps i) = maxAge i" "sliding (set_policyKey opts ps i) = sliding i"
  "created (set_policyKey opts ps i) = created i" "accessed (set_policyKey opts ps i) = accessed i"
  "context (set_policyKey opts ps i) = context i"
  by (auto simp: set_policyKey_def)

lemmas write_defs = set_value_def setCacheItem_def resolve_policy_def set_policyKey_def
  set_context_def set_add_def catch_remove_def mc_set_def assign_def lookup_def
  objectPrototype_def prototypeMethods_def getHash_def Let_def

lemmas read_defs = getCacheItem_def has_def mc_get_def mc_remove_def lookup_def delete_def
  item_property_def
  assign_def objectPrototype_def prototypeMethods_def getHash_def expired_def Let_def

lemma lookup_assign_same [simp]: "lookup props polluted (assign d k x) k = Item x"
  by (simp add: lookup_def assign_def)

lemma lookup_own: "k \<noteq> ''__proto__'' \<Longrightarrow> own d k = Some x \<Longrightarrow> lookup props polluted d k = Item x"
  by (simp add: lookup_def)

lemma own_assign_other: "h \<noteq> k \<Longrightarrow> own (assign d k x) h = own d h"
  by (simp add: assign_def)

lemma own_delete_other: "h \<noteq> k \<Longrightarrow> own (delete d k) h = own d h"
  by (simp add: delete_def)

lemma own_delete_same [simp]: "own (delete d k) k = None"
  by (simp add: delete_def)

lemma proto_delete [simp]: "proto (delete d k) = proto d"
  by (simp add: delete_def)

lemma mc_remove_own: "own (snd (mc_remove polluted h c)) = (own c)(h := None)"
  by (auto simp: mc_remove_def delete_def lookup_def fun_eq_iff split: property.splits option.splits if_splits)

lemma mc_remove_proto [simp]: "proto (snd (mc_remove polluted h c)) = proto c"
  by (auto simp: mc_remove_def split: property.splits)

lemma lookup_cong:
  "own d h = own d' h \<Longrightarrow> proto d = proto d' \<Longrightarrow> lookup props polluted d h = lookup props polluted d' h"
  by (auto simp: lookup_def split: option.splits)

lemma mc_get_Item:
  "mc_get polluted h d = Item e \<longleftrightarrow>
     (if h = ''__proto__'' then proto d = Some e else own d h = Some e)"
  by (auto simp: mc_get_def lookup_def split: option.splits)

lemma getCacheItem_item:
  "mc_get (prototypeAccessed m) (getHash objHash k) (storage m) = Item e \<Longrightarrow>
   getCacheItem objHash k now m =
     (if expired now e (Some now)
      then (Inr (Other JUndefined),
            m\<lparr>storage := snd (mc_remove (prototypeAccessed m) (getHash objHash k) (storage m))\<rparr>)
      else (Inr (Item (e\<lparr>accessed := now\<rparr>)),
            m\<lparr>storage := assign (storage m) (getHash objHash k) (e\<lparr>accessed := now\<rparr>)\<rparr>))"
  by (simp add: getCacheItem_def Let_def)

lemma setCacheItem_storage:
  "storage (snd (setCacheItem objHash i m)) = assign (storage m) (getHash objHash (key i)) i"
  by (auto simp: setCacheItem_def mc_set_def Let_def split: option.splits)

lemma setCacheItem_prototypeAccessed [simp]:
  "prototypeAccessed (snd (setCacheItem objHash i m)) = prototypeAccessed m"
  by (auto simp: setCacheItem_def Let_def split: option.splits)

lemma catch_remove_frame [simp]:
  "storage (catch_remove v k m) = storage m"
  "prototypeAccessed (catch_remove v k m) = prototypeAccessed m"
  "contexts (catch_remove v k m) = contexts m"
  "policies (catch_remove v k m) = policies m"
  by (cases v; simp add: catch_remove_def)+

lemma set_value_entry:
  assumes "case resolve_policy objHash options m of
             Item p \<Rightarrow> p_maxAge p \<noteq> MaxAgeNumber 0
           | Other x \<Rightarrow> classify x = Falsy"
  shows "\<exists>i. storage (snd (set_value objHash k v options parameters now m)) =
               assign (storage m) (getHash objHash k) i \<and>
             prototypeAccessed (snd (set_value objHash k v options parameters now m)) =
               prototypeAccessed m \<and>
             key i = k \<and> val i = v \<and> created i = now \<and> accessed i = now \<and>
             maxAge i = (case resolve_policy objHash options m of
                           Other x \<Rightarrow> None
                         | Item p \<Rightarrow> (case p_maxAge p of
                                        MaxAgeNumber n \<Rightarrow> Some n
                                      | MaxAgeFunction f \<Rightarrow> Some (f (call_args parameters))))"
proof (cases "resolve_policy objHash options m")
  case (Other x)
  with assms show ?thesis
    by (cases options) (fastforce simp: set_value_def Let_def setCacheItem_storage)+
next
  case (Item p)
  with assms show ?thesis
    by (cases options; cases "p_maxAge p")
       (fastforce simp: set_value_def Let_def setCacheItem_storage)+
qed

lemma set_value_returns:
  assumes "fst (set_value objHash k v options parameters now m) = Inr ()"
  shows "case resolve_policy objHash options m of
           Item p \<Rightarrow> True
         | Other x \<Rightarrow> classify x = Falsy"
  using assms
  by (cases "resolve_policy objHash options m")
     (auto simp: set_value_def Let_def split: foreign.splits)

lemma setCacheItem_catchHandlers [simp]:
  "catchHandlers (snd (setCacheItem objHash i m)) = catchHandlers m"
  by (auto simp: setCacheItem_def Let_def split: option.splits)

lemma catch_remove_not_promise [simp]:
  "\<not> instanceofPromise v \<Longrightarrow> catch_remove v k m = m"
  by (cases v) (simp_all add: catch_remove_def)

lemma set_value_catchHandlers:
  assumes "case resolve_policy objHash options m of
             Item p \<Rightarrow> p_maxAge p \<noteq> MaxAgeNumber 0
           | Other x \<Rightarrow> classify x = Falsy"
  shows "catchHandlers (snd (set_value objHash k v options parameters now m)) =
           (if (\<exists>pol. resolve_policy objHash options m = Item pol \<and>
                      keepRejectedPromise pol = Some True)
            then catchHandlers m
            else catchHandlers (catch_remove v k m))"
proof (cases "resolve_policy objHash options m")
  case (Other x)
  with assms show ?thesis
    by (cases "instanceofPromise v") (simp_all add: set_value_def Let_def)
next
  case (Item pol)
  with assms show ?thesis
    by (cases "instanceofPromise v"; cases "p_maxAge pol")
       (simp_all add: set_value_def Let_def)
qed

lemma remove_item_frame [simp]:
  "own (storage (snd (remove_item objHash k m))) = (own (storage m))(getHash objHash k := None)"
  "proto (storage (snd (remove_item objHash k m))) = proto (storage m)"
  "prototypeAccessed (snd (remove_item objHash k m)) = prototypeAccessed m"
  "catchHandlers (snd (remove_item objHash k m)) = catchHandlers m"
  by (auto simp: remove_item_def Let_def mc_remove_own
      split: property.splits foreign.splits option.splits)

lemma run_handlers_frame:
  "own (storage (fold (\<lambda>h m'. if fst h = p then snd (remove_item objHash (snd h) m') else m') hs m)) =
     (\<lambda>x. if x \<in> getHash objHash ` snd ` {h \<in> set hs. fst h = p} then None
          else own (storage m) x) \<and>
   proto (storage (fold (\<lambda>h m'. if fst h = p then snd (remove_item objHash (snd h) m') else m') hs m)) =
     proto (storage m) \<and>
   prototypeAccessed (fold (\<lambda>h m'. if fst h = p then snd (remove_item objHash (snd h) m') else m') hs m) =
     prototypeAccessed m"
proof (induction hs arbitrary: m)
  case Nil
  show ?case by simp
next
  case (Cons a hs)
  show ?case
    by (auto simp: Cons fun_eq_iff)
qed

lemma rejects_own:
  "own (storage (rejects objHash p m)) =
     (\<lambda>x. if x \<in> getHash objHash ` snd ` {h \<in> set (catchHandlers m). fst h = p} then None
          else own (storage m) x)"
  by (auto simp: rejects_def run_handlers_frame fun_eq_iff)

lemma rejects_frame [simp]:
  "proto (storage (rejects objHash p m)) = proto (storage m)"
  "prototypeAccessed (rejects objHash p m) = prototypeAccessed m"
  by (simp_all add: rejects_def run_handlers_frame)

lemma rejects_evicts:
  "(p, k) \<in> set (catchHandlers m) \<Longrightarrow> own (storage (rejects objHash p m)) (getHash objHash k) = None"
  by (force simp: rejects_own)

lemma rejects_keeps:
  "\<forall>h \<in> set (catchHandlers m). fst h = p \<longrightarrow> getHash objHash (snd h) \<noteq> x \<Longrightarrow>
   own (storage (rejects objHash p m)) x = own (storage m) x"
  by (auto simp: rejects_own)

lemma miss_after_removal:
  assumes "ordinary m h" "own (storage m') h = None" "proto (storage m') = proto (storage m)"
    "prototypeAccessed m' = prototypeAccessed m" "getHash objHash k = h"
  shows "getCacheItem objHash k now m' = (Inr (Other JUndefined), m')"
proof -
  have "lookup item_property (prototypeAccessed m') (storage m') h =
      lookup item_property (prototypeAccessed m) (delete (storage m) h) h"
    using assms(2,3,4) by (simp add: lookup_cong [of "storage m'" h "delete (storage m) h"])
  with assms(1) obtain v where "lookup item_property (prototypeAccessed m') (storage m') h = Other v"
    "\<not> truthy v"
    by (auto simp: ordinary_def split: property.splits)
  moreover from this(2) have "classify v = Falsy"
    by (cases v) (auto split: if_splits)
  ultimately show ?thesis
    using assms(5) by (simp add: getCacheItem_def mc_get_def Let_def)
qed

lemma getCacheItem_own_other:
  "h \<noteq> getHash objHash k \<Longrightarrow> own (storage (snd (getCacheItem objHash k now m))) h = own (storage m) h"
  by (auto simp: getCacheItem_def Let_def mc_remove_own assign_def
      split: property.splits foreign.splits)

lemma getCacheItem_proto:
  "getHash objHash k \<noteq> ''__proto__'' \<Longrightarrow>
   proto (storage (snd (getCacheItem objHash k now m))) = proto (storage m)"
  by (auto simp: getCacheItem_def Let_def assign_def split: property.splits foreign.splits)

lemma set_value_own_other:
  "h \<noteq> getHash objHash k \<Longrightarrow>
   own (storage (snd (set_value objHash k v options parameters now m))) h = own (storage m) h"
  by (cases options)
     (auto simp: set_value_def setCacheItem_storage Let_def assign_def
      split: property.splits foreign.splits max_age.splits)

lemma set_value_proto:
  "getHash objHash k \<noteq> ''__proto__'' \<Longrightarrow>
   proto (storage (snd (set_value objHash k v options parameters now m))) = proto (storage m)"
  by (cases options)
     (auto simp: set_value_def setCacheItem_storage Let_def assign_def
      split: property.splits foreign.splits max_age.splits)

lemma set_value_no_options:
  "fst (set_value objHash k v None parameters now m) = Inr ()"
  by (simp add: set_value_def resolve_policy_def setCacheItem_def Let_def)

lemma set_value_no_options_Inl [simp]:
  "set_value objHash k v None parameters now m \<noteq> (Inl e, m2)"
  using set_value_no_options [of objHash k v parameters now m] by auto

lemma remove_item_deregisters:
  "getHash objHash k \<noteq> ''__proto__'' \<Longrightarrow> own (storage m) (getHash objHash k) = Some e \<Longrightarrow>
   context e = Some c \<Longrightarrow> c \<noteq> [] \<Longrightarrow> contexts m c = Some hs \<Longrightarrow>
   remove_item objHash k m =
     (Inr True, m\<lparr>storage := delete (storage m) (getHash objHash k),
                    contexts := (contexts m)(c \<mapsto> removeAll (getHash objHash k) hs)\<rparr>)"
  by (simp add: remove_item_def mc_remove_def lookup_def Let_def)

lemma removeContext_spec:
  "(contexts m c = None \<and> \<not> truthy (objectPrototype (prototypeAccessed m) c) \<longrightarrow>
      removeContext c m = (Inr (), m)) \<and>
   (contexts m c = Some hs \<longrightarrow>
      fst (removeContext c m) = Inr () \<and>
      own (storage (snd (removeContext c m))) =
        (\<lambda>h. if h \<in> set hs then None else own (storage m) h) \<and>
      contexts (snd (removeContext c m)) = (contexts m)(c := None))"
proof -
  have fold: "own (fold (\<lambda>keyHash cache. snd (mc_remove p keyHash cache)) hs d) =
      (\<lambda>h. if h \<in> set hs then None else own d h)" for p hs and d :: "ICacheItem dictionary"
    by (induction hs arbitrary: d) (auto simp: mc_remove_own fun_eq_iff)
  show ?thesis
    by (simp add: removeContext_def fold)
qed

section \<open>Inherited properties\<close>

text \<open>
  What the dictionaries being plain objects means for the manager, on a fresh one.
  \<open>remove("toString")\<close> reports an entry. A policy key \<open>toString\<close> makes
  \<open>set\<close> take the inherited function for the policy and throw before anything is
  stored; a context \<open>constructor\<close> makes it throw after the entry is stored and
  before the hash is registered; \<open>removeContext("constructor")\<close> throws.
\<close>

lemma inherited_property_examples:
  "fst (remove_item hash0 (JStr ''toString'') empty_manager) = Inr True"
  "snd (remove_item hash0 (JStr ''toString'') empty_manager) = empty_manager"
  "set_value hash0 (JStr ''k'') (JObj 7)
     (Some \<lparr>o_context = None, o_policyKey = PolicyKeyValue (JStr ''toString''),
            o_policy = Some \<lparr>p_maxAge = MaxAgeNumber 100, p_sliding = None,
                              keepRejectedPromise = None\<rparr>\<rparr>) None 0 empty_manager =
     (Inl TypeError, empty_manager)"
  "fst (set_value hash0 (JStr ''k'') (JObj 7) (Some (context_of ''constructor'' (MaxAgeNumber 100)))
     None 0 empty_manager) = Inl TypeError"
  "own (storage (snd (set_value hash0 (JStr ''k'') (JObj 7)
     (Some (context_of ''constructor'' (MaxAgeNumber 100))) None 0 empty_manager))) ''k'' =
     Some \<lparr>key = JStr ''k'', val = JObj 7, context = Some ''constructor'', policyKey = JUndefined,
           maxAge = Some 100, sliding = None, created = 0, accessed = 0\<rparr>"
  "fst (removeContext ''constructor'' empty_manager) = Inl TypeError"
  by (simp_all add: remove_item_def removeContext_def read_defs write_defs)

text \<open>
  The key \<open>__proto__\<close>. On a fresh manager the storage gives \<open>Object.prototype\<close>
  for it, and \<open>getCacheItem\<close> assigns \<open>accessed\<close> there, after which every
  dictionary inherits \<open>accessed\<close>. \<open>set("__proto__", v)\<close> makes the new entry the
  prototype of the storage dictionary: \<open>get("__proto__")\<close> returns \<open>v\<close>, and the
  dictionary inherits the entry's fields, so that \<open>getCacheItem("key")\<close> reads the
  string \<open>__proto__\<close> as an item and throws on the assignment to it.
\<close>

lemma proto_key_examples:
  "has hash0 (JStr ''__proto__'') 5 empty_manager = (Inr True, empty_manager)"
  "getCacheItem hash0 (JStr ''__proto__'') 5 empty_manager =
     (Inr (Other JObjectPrototype), empty_manager\<lparr>prototypeAccessed := Some 5\<rparr>)"
  "fst (has hash0 (JStr ''accessed'') 6 (empty_manager\<lparr>prototypeAccessed := Some 5\<rparr>)) = Inr True"
  "fst (get hash0 (JStr ''__proto__'') 1
     (snd (set_value hash0 (JStr ''__proto__'') (JObj 7) None None 0 empty_manager))) = Inr (JObj 7)"
  "fst (getCacheItem hash0 (JStr ''key'') 1
     (snd (set_value hash0 (JStr ''__proto__'') (JObj 7) None None 0 empty_manager))) = Inl TypeError"
  by (simp_all add: get_def read_defs write_defs)

section \<open>Expiration\<close>

text \<open>
  Claim C1. An entry whose maxAge is absent or zero is never expired. Otherwise, with
  start = accessed for a sliding entry and created for any other, and age = now - start,
  the entry is expired exactly when age > maxAge; at age = maxAge it is not. A call
  without a time is a call with the time that the clock shows.
\<close>

theorem expired_spec:
  "(maxAge e = None \<or> maxAge e = Some 0 \<longrightarrow> \<not> expired clock e (Some now)) \<and>
   (maxAge e = Some a \<and> a \<noteq> 0 \<longrightarrow>
      expired clock e (Some now) =
        (now - (if sliding e = Some True then accessed e else created e) > a)) \<and>
   (maxAge e = Some a \<and> a \<noteq> 0 \<and>
      now - (if sliding e = Some True then accessed e else created e) = a \<longrightarrow>
      \<not> expired clock e (Some now)) \<and>
   expired clock e None = expired clock e (Some clock)"
  by (auto simp: expired_def Let_def split: option.splits)

theorem expired_spec_witness:
  "\<not> expired 7 \<lparr>key = JStr ''k'', val = JNum 1, context = None, policyKey = JUndefined,
       maxAge = Some 0, sliding = None, created = 0, accessed = 0\<rparr> (Some 5000) \<and>
   \<not> expired 7 \<lparr>key = JStr ''k'', val = JNum 1, context = None, policyKey = JUndefined,
       maxAge = Some 100, sliding = Some True, created = 0, accessed = 50\<rparr> (Some 150) \<and>
   expired 7 \<lparr>key = JStr ''k'', val = JNum 1, context = None, policyKey = JUndefined,
       maxAge = Some 100, sliding = Some True, created = 0, accessed = 50\<rparr> (Some 151) \<and>
   expired 7 \<lparr>key = JStr ''k'', val = JNum 1, context = None, policyKey = JUndefined,
       maxAge = Some 100, sliding = Some False, created = 0, accessed = 50\<rparr> (Some 101)"
  using
    expired_spec [of "\<lparr>key = JStr ''k'', val = JNum 1, context = None, policyKey = JUndefined,
       maxAge = Some 0, sliding = None, created = 0, accessed = 0\<rparr>" 7 5000 0]
    expired_spec [of "\<lparr>key = JStr ''k'', val = JNum 1, context = None, policyKey = JUndefined,
       maxAge = Some 100, sliding = Some True, created = 0, accessed = 50\<rparr>" 7 150 100]
    expired_spec [of "\<lparr>key = JStr ''k'', val = JNum 1, context = None, policyKey = JUndefined,
       maxAge = Some 100, sliding = Some True, created = 0, accessed = 50\<rparr>" 7 151 100]
    expired_spec [of "\<lparr>key = JStr ''k'', val = JNum 1, context = None, policyKey = JUndefined,
       maxAge = Some 100, sliding = Some False, created = 0, accessed = 50\<rparr>" 7 101 100]
  by simp

section \<open>Reading\<close>

text \<open>
  Claim C2. getCacheItem(key) is a miss when the storage has no entry for the key's hash.
  The \<open>MemoryCache\<close> reads \<open>this._cache[hash]\<close> on a plain object, and a string
  key is its own hash: on a manager in which nothing was stored,
  \<open>getCacheItem("toString")\<close> and \<open>getCacheItem("constructor")\<close> return the function
  inherited from \<open>Object.prototype\<close> as the cache item, where the key \<open>k\<close> is the
  miss that the claim and the method's own comment promise.
\<close>

theorem getCacheItem_inherited_property:
  "getCacheItem hash0 (JStr ''toString'') 5 empty_manager =
     (Inr (Other (JBuiltin ''toString'')), empty_manager) \<and>
   getCacheItem hash0 (JStr ''constructor'') 5 empty_manager =
     (Inr (Other (JBuiltin ''constructor'')), empty_manager) \<and>
   getCacheItem hash0 (JStr ''k'') 5 empty_manager = (Inr (Other JUndefined), empty_manager)"
  by (simp add: getCacheItem_def mc_get_def lookup_def objectPrototype_def prototypeMethods_def
      getHash_def)

text \<open>
  Claim C10. has(key) is true exactly when the storage holds an unexpired entry for the
  key's hash, and it changes nothing. It changes nothing; but on a manager in which
  nothing was stored \<open>has("toString")\<close> and \<open>has("constructor")\<close> are true: the
  inherited function is truthy and has no \<open>maxAge\<close>.
\<close>

theorem has_inherited_property:
  "has hash0 (JStr ''toString'') 5 empty_manager = (Inr True, empty_manager) \<and>
   has hash0 (JStr ''constructor'') 5 empty_manager = (Inr True, empty_manager) \<and>
   has hash0 (JStr ''k'') 5 empty_manager = (Inr False, empty_manager)"
  by (simp add: has_def mc_get_def lookup_def objectPrototype_def prototypeMethods_def
      getHash_def)

section \<open>Overriding a policy\<close>

text \<open>
  Claim C6. setCachePolicy(policyKey, policy) writes the policy registry at the hash of
  the key and nothing else: storage, context registry and every stored entry with its
  captured maxAge and sliding stay as they are, so a later read gives what it would have
  given without the override. A later write whose options name the policy key resolves
  to the new policy.
\<close>

theorem setCachePolicy_frame:
  "storage (setCachePolicy objHash pk pol m) = storage m \<and>
   contexts (setCachePolicy objHash pk pol m) = contexts m \<and>
   prototypeAccessed (setCachePolicy objHash pk pol m) = prototypeAccessed m \<and>
   catchHandlers (setCachePolicy objHash pk pol m) = catchHandlers m \<and>
   policies (setCachePolicy objHash pk pol m) = assign (policies m) (getHash objHash pk) pol \<and>
   lookup policy_property (prototypeAccessed m) (policies (setCachePolicy objHash pk pol m))
     (getHash objHash pk) = Item pol \<and>
   getCacheItem objHash k now (setCachePolicy objHash pk pol m) =
     (fst (getCacheItem objHash k now m),
      setCachePolicy objHash pk pol (snd (getCacheItem objHash k now m))) \<and>
   fst (has objHash k now (setCachePolicy objHash pk pol m)) = fst (has objHash k now m) \<and>
   (truthy pk \<and> o_policyKey opts = PolicyKeyValue pk \<longrightarrow>
      resolve_policy objHash (Some opts) (setCachePolicy objHash pk pol m) = Item pol)"
proof -
  have get: "getCacheItem objHash k now (setCachePolicy objHash pk pol m) =
     (fst (getCacheItem objHash k now m),
      setCachePolicy objHash pk pol (snd (getCacheItem objHash k now m)))"
    by (simp add: setCachePolicy_def getCacheItem_def Let_def
        split: property.splits foreign.splits)
  have has: "fst (has objHash k now (setCachePolicy objHash pk pol m)) = fst (has objHash k now m)"
    by (simp add: setCachePolicy_def has_def Let_def split: property.splits foreign.splits)
  show ?thesis
    using get has by (simp add: setCachePolicy_def resolve_policy_def)
qed

lemma getCacheItem_hit_example:
  "fst (getCacheItem hash0 (JStr ''k'') 100 manager100) = Inr (Item (item100\<lparr>accessed := 100\<rparr>))"
  by (simp add: getCacheItem_def mc_get_def lookup_def getHash_def expired_def Let_def)

theorem setCachePolicy_frame_witness:
  "own (storage (setCachePolicy hash0 (JStr ''p'')
      \<lparr>p_maxAge = MaxAgeNumber 5, p_sliding = None, keepRejectedPromise = None\<rparr> manager100)) ''k'' =
     Some item100 \<and>
   fst (getCacheItem hash0 (JStr ''k'') 100 (setCachePolicy hash0 (JStr ''p'')
      \<lparr>p_maxAge = MaxAgeNumber 5, p_sliding = None, keepRejectedPromise = None\<rparr> manager100)) =
     Inr (Item (item100\<lparr>accessed := 100\<rparr>)) \<and>
   resolve_policy hash0
     (Some \<lparr>o_context = None, o_policyKey = PolicyKeyValue (JStr ''p''), o_policy = None\<rparr>)
     (setCachePolicy hash0 (JStr ''p'')
      \<lparr>p_maxAge = MaxAgeNumber 5, p_sliding = None, keepRejectedPromise = None\<rparr> manager100) =
     Item \<lparr>p_maxAge = MaxAgeNumber 5, p_sliding = None, keepRejectedPromise = None\<rparr>"
proof -
  note frame = setCachePolicy_frame [where m = manager100 and objHash = hash0
      and pk = "JStr ''p''"
      and pol = "\<lparr>p_maxAge = MaxAgeNumber 5, p_sliding = None, keepRejectedPromise = None\<rparr>"
      and k = "JStr ''k''" and now = 100
      and opts = "\<lparr>o_context = None, o_policyKey = PolicyKeyValue (JStr ''p''), o_policy = None\<rparr>"]
  have pk: "truthy (JStr ''p'') \<and>
      o_policyKey \<lparr>o_context = None, o_policyKey = PolicyKeyValue (JStr ''p''), o_policy = None\<rparr> =
        PolicyKeyValue (JStr ''p'')"
    by simp
  have r1: "storage (setCachePolicy hash0 (JStr ''p'')
      \<lparr>p_maxAge = MaxAgeNumber 5, p_sliding = None, keepRejectedPromise = None\<rparr> manager100) =
      storage manager100"
    using frame by blast
  have r2: "getCacheItem hash0 (JStr ''k'') 100 (setCachePolicy hash0 (JStr ''p'')
      \<lparr>p_maxAge = MaxAgeNumber 5, p_sliding = None, keepRejectedPromise = None\<rparr> manager100) =
     (fst (getCacheItem hash0 (JStr ''k'') 100 manager100),
      setCachePolicy hash0 (JStr ''p'')
        \<lparr>p_maxAge = MaxAgeNumber 5, p_sliding = None, keepRejectedPromise = None\<rparr>
        (snd (getCacheItem hash0 (JStr ''k'') 100 manager100)))"
    using frame by blast
  have r3: "resolve_policy hash0
     (Some \<lparr>o_context = None, o_policyKey = PolicyKeyValue (JStr ''p''), o_policy = None\<rparr>)
     (setCachePolicy hash0 (JStr ''p'')
      \<lparr>p_maxAge = MaxAgeNumber 5, p_sliding = None, keepRejectedPromise = None\<rparr> manager100) =
     Item \<lparr>p_maxAge = MaxAgeNumber 5, p_sliding = None, keepRejectedPromise = None\<rparr>"
    using frame pk by blast
  show ?thesis
    unfolding r1 r2 r3 by (simp add: getCacheItem_hit_example)
qed

section \<open>A maxAge of zero\<close>

lemma function_zero_written:
  "set_value hash0 (JStr ''k'') (JObj 7) (Some (policy_of (MaxAgeFunction (\<lambda>ps. 0)) None)) None 0
     empty_manager =
   (Inr (), empty_manager\<lparr>storage := \<lparr>own = [''k'' \<mapsto>
      \<lparr>key = JStr ''k'', val = JObj 7, context = None, policyKey = JUndefined,
       maxAge = Some 0, sliding = None, created = 0, accessed = 0\<rparr>], proto = None\<rparr>\<rparr>)"
  by (simp add: write_defs)

text \<open>
  Claim C3. A resolved policy whose maxAge is 0, as a number or as the result of a
  function, makes set a no-op. The method tests \<open>maxAge === 0\<close> on the policy's field
  before it calls a function found there: the number 0 returns early, and a function
  that returns 0 stores an entry with maxAge 0, which \<open>expired\<close> never reports as
  expired, so has(key) is true from then on.
\<close>

theorem set_maxAge_function_zero_is_stored:
  "set_value hash0 (JStr ''k'') (JObj 7) (Some (policy_of (MaxAgeNumber 0) None)) None 0
     empty_manager = (Inr (), empty_manager) \<and>
   own (storage (snd (set_value hash0 (JStr ''k'') (JObj 7)
         (Some (policy_of (MaxAgeFunction (\<lambda>ps. 0)) None)) None 0 empty_manager))) ''k'' =
     Some \<lparr>key = JStr ''k'', val = JObj 7, context = None, policyKey = JUndefined,
           maxAge = Some 0, sliding = None, created = 0, accessed = 0\<rparr> \<and>
   fst (has hash0 (JStr ''k'') 1000000
          (snd (set_value hash0 (JStr ''k'') (JObj 7)
             (Some (policy_of (MaxAgeFunction (\<lambda>ps. 0)) None)) None 0 empty_manager))) = Inr True"
proof -
  have noop: "set_value hash0 (JStr ''k'') (JObj 7) (Some (policy_of (MaxAgeNumber 0) None)) None 0
     empty_manager = (Inr (), empty_manager)"
    by (simp add: write_defs)
  show ?thesis
    unfolding function_zero_written noop by (simp add: read_defs)
qed

section \<open>Writing, then reading\<close>

lemma negative_written:
  "set_value hash0 (JStr ''k'') (JObj 7) (Some (policy_of (MaxAgeNumber (- 1)) None)) None 0
     empty_manager =
   (Inr (), empty_manager\<lparr>storage := \<lparr>own = [''k'' \<mapsto>
      \<lparr>key = JStr ''k'', val = JObj 7, context = None, policyKey = JUndefined,
       maxAge = Some (- 1), sliding = None, created = 0, accessed = 0\<rparr>], proto = None\<rparr>\<rparr>)"
  by (simp add: write_defs)

text \<open>
  Claim C4 says that set(K, V) followed at once by get(K) returns V whenever the resolved
  policy does not set maxAge to 0. A policy with the maxAge \<open>-1\<close> is such a policy: set
  returns, the entry is stored, has the age 0 at the read, and \<open>0 > -1\<close> makes it
  expired, so get removes it and returns \<open>undefined\<close>.
\<close>

theorem set_then_get_counterexample:
  "fst (set_value hash0 (JStr ''k'') (JObj 7) (Some (policy_of (MaxAgeNumber (- 1)) None)) None 0
        empty_manager) = Inr () \<and>
   own (storage (snd (set_value hash0 (JStr ''k'') (JObj 7)
        (Some (policy_of (MaxAgeNumber (- 1)) None)) None 0 empty_manager))) ''k'' =
     Some \<lparr>key = JStr ''k'', val = JObj 7, context = None, policyKey = JUndefined,
               maxAge = Some (- 1), sliding = None, created = 0, accessed = 0\<rparr> \<and>
   fst (get hash0 (JStr ''k'') 0
     (snd (set_value hash0 (JStr ''k'') (JObj 7) (Some (policy_of (MaxAgeNumber (- 1)) None)) None 0
        empty_manager))) = Inr JUndefined"
  unfolding negative_written
  by (simp add: get_def read_defs)

text \<open>
  Claim C4, as amended. When set(K, V) returns and the resolved policy, if there is one,
  gives a maxAge (the number, or the result of the function) that is not 0 and is at
  least the time that passed between the two calls, get(K) returns V; for a read at the
  instant of the write, a maxAge above 0. The value comes back as it was stored. Nothing
  is said of a maxAge function that returns 0, nor of a call of set that throws.
\<close>

theorem set_then_get:
  assumes returns: "fst (set_value objHash k v options parameters now m) = Inr ()"
    and age: "case resolve_policy objHash options m of
                Item p \<Rightarrow>
                  (case p_maxAge p of
                     MaxAgeNumber n \<Rightarrow> n \<noteq> 0 \<and> now' - now \<le> n
                   | MaxAgeFunction f \<Rightarrow>
                       f (call_args parameters) \<noteq> 0 \<and> now' - now \<le> f (call_args parameters))
              | Other x \<Rightarrow> True"
  shows "fst (get objHash k now' (snd (set_value objHash k v options parameters now m))) = Inr v"
proof -
  have stored: "case resolve_policy objHash options m of
             Item p \<Rightarrow> p_maxAge p \<noteq> MaxAgeNumber 0
           | Other x \<Rightarrow> classify x = Falsy"
    using age set_value_returns [OF returns]
    by (auto split: property.splits max_age.splits)
  from set_value_entry [OF stored, of k v parameters now]
  obtain i where i:
    "storage (snd (set_value objHash k v options parameters now m)) =
       assign (storage m) (getHash objHash k) i"
    "val i = v" "created i = now" "accessed i = now"
    "maxAge i = (case resolve_policy objHash options m of
                   Other x \<Rightarrow> None
                 | Item p \<Rightarrow> (case p_maxAge p of
                                MaxAgeNumber n \<Rightarrow> Some n
                              | MaxAgeFunction f \<Rightarrow> Some (f (call_args parameters))))"
    by blast
  have fresh: "\<not> expired now' i (Some now')"
    using age i(3,4,5)
    by (auto simp: expired_def Let_def split: property.splits max_age.splits)
  show ?thesis
    using fresh i(2) by (simp add: get_def getCacheItem_def mc_get_def i(1) Let_def)
qed

lemma hundred_written:
  "set_value hash0 (JStr ''k'') (JObj 7) (Some (policy_of (MaxAgeNumber 100) None)) None 0
     empty_manager =
   (Inr (), empty_manager\<lparr>storage := \<lparr>own = [''k'' \<mapsto>
      \<lparr>key = JStr ''k'', val = JObj 7, context = None, policyKey = JUndefined,
       maxAge = Some 100, sliding = None, created = 0, accessed = 0\<rparr>], proto = None\<rparr>\<rparr>)"
  by (simp add: write_defs)

theorem set_then_get_witness:
  "fst (get hash0 (JStr ''k'') 100
     (snd (set_value hash0 (JStr ''k'') (JObj 7) (Some (policy_of (MaxAgeNumber 100) None)) None 0
        empty_manager))) = Inr (JObj 7)"
proof -
  have returns: "fst (set_value hash0 (JStr ''k'') (JObj 7)
      (Some (policy_of (MaxAgeNumber 100) None)) None 0 empty_manager) = Inr ()"
    by (simp add: hundred_written)
  have age: "case resolve_policy hash0 (Some (policy_of (MaxAgeNumber 100) None)) empty_manager of
                Item p \<Rightarrow>
                  (case p_maxAge p of
                     MaxAgeNumber n \<Rightarrow> n \<noteq> 0 \<and> 100 - 0 \<le> n
                   | MaxAgeFunction f \<Rightarrow> f (call_args None) \<noteq> 0 \<and> 100 - 0 \<le> f (call_args None))
              | Other x \<Rightarrow> True"
    by (simp add: resolve_policy_def)
  show ?thesis
    by (rule set_then_get [OF returns age])
qed

section \<open>The context registry\<close>

lemma managerA_built:
  "set_value hash0 (JStr ''k'') (JObj 7) (Some (context_of ''A'' (MaxAgeNumber 10))) None 0
     empty_manager = (Inr (), managerA)"
  by (simp add: write_defs)

lemma managerA_evicted:
  "getCacheItem hash0 (JStr ''k'') 11 managerA =
     (Inr (Other JUndefined), managerA\<lparr>storage := \<lparr>own = Map.empty, proto = None\<rparr>\<rparr>)"
  by (simp add: read_defs)

text \<open>
  Claim C5. Every removal of an entry from the storage removes its hash from the set of
  its context. \<open>remove\<close> does so (fact \<open>remove_item_deregisters\<close>, and the last
  line below); the eviction of an expired entry in \<open>getCacheItem\<close> calls
  \<open>storage.remove\<close> alone, and the context \<open>A\<close> still lists the hash of the entry that
  is gone.
\<close>

theorem lazy_eviction_keeps_context_hash:
  "own (storage (snd (getCacheItem hash0 (JStr ''k'') 11
      (snd (set_value hash0 (JStr ''k'') (JObj 7) (Some (context_of ''A'' (MaxAgeNumber 10))) None 0
         empty_manager))))) ''k'' = None \<and>
   contexts (snd (getCacheItem hash0 (JStr ''k'') 11
      (snd (set_value hash0 (JStr ''k'') (JObj 7) (Some (context_of ''A'' (MaxAgeNumber 10))) None 0
         empty_manager)))) ''A'' = Some [''k''] \<and>
   contexts (snd (remove_item hash0 (JStr ''k'')
      (snd (set_value hash0 (JStr ''k'') (JObj 7) (Some (context_of ''A'' (MaxAgeNumber 10))) None 0
         empty_manager)))) ''A'' = Some []"
  unfolding managerA_built managerA_evicted snd_conv
  by (simp add: remove_item_def read_defs)

lemma managerA_rewritten:
  "set_value hash0 (JStr ''k'') (JObj 8) None None 12
     (managerA\<lparr>storage := \<lparr>own = Map.empty, proto = None\<rparr>\<rparr>) =
     (Inr (), managerA\<lparr>storage := \<lparr>own = [''k'' \<mapsto>
       \<lparr>key = JStr ''k'', val = JObj 8, context = None, policyKey = JUndefined,
        maxAge = None, sliding = None, created = 12, accessed = 12\<rparr>], proto = None\<rparr>\<rparr>)"
  by (simp add: write_defs)

text \<open>
  Claim C7. removeContext(C) removes the entries listed under C, deletes the set of C,
  does nothing for an unknown C (fact \<open>removeContext_spec\<close>), and leaves the entries of
  other contexts and of no context alone. The last part needs a registry that lists
  under C only entries of C. After the eviction above the hash of \<open>k\<close> is still listed
  under \<open>A\<close>; a new entry written under \<open>k\<close> with no context is then removed by
  removeContext(A).
\<close>

theorem removeContext_removes_untagged_entry:
  "own (storage (snd (set_value hash0 (JStr ''k'') (JObj 8) None None 12
      (snd (getCacheItem hash0 (JStr ''k'') 11
        (snd (set_value hash0 (JStr ''k'') (JObj 7) (Some (context_of ''A'' (MaxAgeNumber 10))) None 0
           empty_manager))))))) ''k'' =
     Some \<lparr>key = JStr ''k'', val = JObj 8, context = None, policyKey = JUndefined,
           maxAge = None, sliding = None, created = 12, accessed = 12\<rparr> \<and>
   own (storage (snd (removeContext ''A'' (snd (set_value hash0 (JStr ''k'') (JObj 8) None None 12
      (snd (getCacheItem hash0 (JStr ''k'') 11
        (snd (set_value hash0 (JStr ''k'') (JObj 7) (Some (context_of ''A'' (MaxAgeNumber 10))) None 0
           empty_manager))))))))) ''k'' = None"
  unfolding managerA_built managerA_evicted snd_conv managerA_rewritten
  by (simp add: removeContext_def read_defs)

section \<open>Wrapped callables\<close>

lemma wrap_first_call:
  "objHash (JArr [JStr ''f'', JArr [JNum 5]]) = h \<Longrightarrow> ordinary empty_manager h \<Longrightarrow>
   wrap objHash (''f'', \<lambda>ps w. (JNum 1, w + 1)) None None [JNum 5] 0 0 (0 :: int, empty_manager) =
     (Inr (JNum 1), 1,
      empty_manager\<lparr>storage := \<lparr>own = [h \<mapsto>
         \<lparr>key = JArr [JStr ''f'', JArr [JNum 5]], val = JNum 1, context = None,
          policyKey = JUndefined, maxAge = None, sliding = None, created = 0, accessed = 0\<rparr>],
        proto = None\<rparr>\<rparr>)"
  by (auto simp: ordinary_def wrap_def getCacheItem_def mc_get_def delete_def
      write_defs split: if_splits foreign.splits)

lemma wrap_same_name_shares:
  assumes h: "objHash (JArr [JStr ''f'', JArr [JNum 5]]) = h" and ord: "ordinary empty_manager h"
  shows "wrap objHash (''f'', \<lambda>ps w. (JNum 2, w + 1)) None None [JNum 5] 1 1
     (snd (wrap objHash (''f'', \<lambda>ps w. (JNum 1, w + 1)) None None [JNum 5] 0 0
        (0 :: int, empty_manager))) =
     (Inr (JNum 1), 1,
      empty_manager\<lparr>storage := \<lparr>own = [h \<mapsto>
         \<lparr>key = JArr [JStr ''f'', JArr [JNum 5]], val = JNum 1, context = None,
          policyKey = JUndefined, maxAge = None, sliding = None, created = 0, accessed = 1\<rparr>],
        proto = None\<rparr>\<rparr>)"
proof -
  have plain: "h \<noteq> ''__proto__''"
    using ord by (auto simp: ordinary_def lookup_def delete_def)
  show ?thesis
    unfolding wrap_first_call [of objHash h, OF h ord] snd_conv
    using plain
    by (simp add: wrap_def getCacheItem_def mc_get_def lookup_def assign_def getHash_def h
        expired_def Let_def)
qed

text \<open>
  Claim C8 says that the default key holds the target's identity, so that two targets
  never share an entry. The key holds \<open>target.name\<close>. Two functions of the name
  \<open>f\<close>, one returning 1 and one returning 2, build the same key for the argument 5,
  so with any hash function (fact \<open>wrap_same_name_shares\<close>) the second wrapped function
  returns 1 from the cache and its target does not run: the count of calls stays 1.
\<close>

theorem wrap_same_name_counterexample:
  "fst (wrap hash0 (''f'', \<lambda>ps w. (JNum 2, w + 1)) None None [JNum 5] 1 1
     (snd (wrap hash0 (''f'', \<lambda>ps w. (JNum 1, w + 1)) None None [JNum 5] 0 0
        (0 :: int, empty_manager)))) = Inr (JNum 1) \<and>
   fst (snd (wrap hash0 (''f'', \<lambda>ps w. (JNum 2, w + 1)) None None [JNum 5] 1 1
     (snd (wrap hash0 (''f'', \<lambda>ps w. (JNum 1, w + 1)) None None [JNum 5] 0 0
        (0 :: int, empty_manager))))) = 1"
proof -
  have "ordinary empty_manager ''#''"
    by (simp add: ordinary_def lookup_def delete_def objectPrototype_def prototypeMethods_def)
  then show ?thesis
    by (simp add: wrap_same_name_shares [of hash0 "''#''"])
qed

text \<open>
  Claim C8, as amended. Without getKey the key of a call is \<open>[target.name, parameters]\<close>.
  When the storage gives an unexpired entry for the hash of that key, its value is
  returned and the target does not run; when it gives nothing, or an expired entry, the
  target runs, its result is written with that key and, when the write returns (as it
  does without options), returned. A call changes no entry under another hash: two
  calls whose keys, with different arguments or different names, get different hashes
  from \<open>object-hash\<close> have separate entries.
\<close>

theorem wrap_spec:
  "wrap objHash target cacheOptions None parameters now now' s =
     wrap objHash target cacheOptions
       (Some (\<lambda>ps. JArr [JStr (fst target), JArr ps])) parameters now now' s \<and>
   (mc_get (prototypeAccessed (snd s)) (objHash (JArr [JStr (fst target), JArr parameters]))
        (storage (snd s)) = Item e \<and>
      \<not> expired now e (Some now) \<longrightarrow>
      fst (wrap objHash target cacheOptions None parameters now now' s) = Inr (val e) \<and>
      fst (snd (wrap objHash target cacheOptions None parameters now now' s)) = fst s) \<and>
   ((\<exists>x. mc_get (prototypeAccessed (snd s)) (objHash (JArr [JStr (fst target), JArr parameters]))
        (storage (snd s)) = Other x \<and> \<not> truthy x) \<or>
      (\<exists>e. mc_get (prototypeAccessed (snd s)) (objHash (JArr [JStr (fst target), JArr parameters]))
        (storage (snd s)) = Item e \<and> expired now e (Some now)) \<longrightarrow>
      fst (snd (wrap objHash target cacheOptions None parameters now now' s)) =
        snd (snd target parameters (fst s)) \<and>
      snd (snd (wrap objHash target cacheOptions None parameters now now' s)) =
        snd (set_value objHash (JArr [JStr (fst target), JArr parameters])
          (fst (snd target parameters (fst s))) cacheOptions (Some parameters) now'
          (snd (getCacheItem objHash (JArr [JStr (fst target), JArr parameters]) now (snd s)))) \<and>
      (fst (set_value objHash (JArr [JStr (fst target), JArr parameters])
          (fst (snd target parameters (fst s))) cacheOptions (Some parameters) now'
          (snd (getCacheItem objHash (JArr [JStr (fst target), JArr parameters]) now (snd s)))) =
         Inr () \<longrightarrow>
       fst (wrap objHash target cacheOptions None parameters now now' s) =
         Inr (fst (snd target parameters (fst s)))) \<and>
      fst (wrap objHash target None None parameters now now' s) =
        Inr (fst (snd target parameters (fst s)))) \<and>
   (objHash (JArr [JStr f, JArr a]) \<noteq> objHash (JArr [JStr (fst target), JArr parameters]) \<longrightarrow>
      own (storage (snd (snd (wrap objHash target cacheOptions None parameters now now' s))))
        (objHash (JArr [JStr f, JArr a])) =
      own (storage (snd s)) (objHash (JArr [JStr f, JArr a])) \<and>
      (mc_get (prototypeAccessed (snd s)) (objHash (JArr [JStr f, JArr a])) (storage (snd s)) =
         Item e \<longrightarrow>
       mc_get (prototypeAccessed (snd (snd (wrap objHash target cacheOptions None parameters
                now now' s))))
         (objHash (JArr [JStr f, JArr a]))
         (storage (snd (snd (wrap objHash target cacheOptions None parameters now now' s)))) =
         Item e))"
proof (intro conjI impI)
  let ?K = "JArr [JStr (fst target), JArr parameters]"
  show "wrap objHash target cacheOptions None parameters now now' s =
     wrap objHash target cacheOptions
       (Some (\<lambda>ps. JArr [JStr (fst target), JArr ps])) parameters now now' s"
    by (simp add: wrap_def)
  have K: "getHash objHash ?K = objHash ?K"
    by (simp add: getHash_def)
  {
    assume "mc_get (prototypeAccessed (snd s)) (objHash ?K) (storage (snd s)) = Item e \<and>
      \<not> expired now e (Some now)"
    then have hit: "getCacheItem objHash ?K now (snd s) =
        (Inr (Item (e\<lparr>accessed := now\<rparr>)),
         (snd s)\<lparr>storage := assign (storage (snd s)) (objHash ?K) (e\<lparr>accessed := now\<rparr>)\<rparr>)"
      by (simp add: getCacheItem_def K Let_def)
    show "fst (wrap objHash target cacheOptions None parameters now now' s) = Inr (val e)"
      by (simp add: wrap_def hit)
    show "fst (snd (wrap objHash target cacheOptions None parameters now now' s)) = fst s"
      by (simp add: wrap_def hit)
  }
  {
    assume "(\<exists>x. mc_get (prototypeAccessed (snd s)) (objHash ?K) (storage (snd s)) = Other x \<and>
          \<not> truthy x) \<or>
      (\<exists>e. mc_get (prototypeAccessed (snd s)) (objHash ?K) (storage (snd s)) = Item e \<and>
          expired now e (Some now))"
    then have "fst (getCacheItem objHash ?K now (snd s)) = Inr (Other JUndefined)"
    proof
      assume "\<exists>x. mc_get (prototypeAccessed (snd s)) (objHash ?K) (storage (snd s)) = Other x \<and>
          \<not> truthy x"
      then obtain x where x: "mc_get (prototypeAccessed (snd s)) (objHash ?K) (storage (snd s)) =
          Other x" "\<not> truthy x"
        by blast
      from x(2) have "classify x = Falsy"
        by (cases x) (auto split: if_splits)
      with x(1) show ?thesis
        by (simp add: getCacheItem_def K Let_def)
    next
      assume "\<exists>e. mc_get (prototypeAccessed (snd s)) (objHash ?K) (storage (snd s)) = Item e \<and>
          expired now e (Some now)"
      then show ?thesis
        by (auto simp: getCacheItem_def K Let_def)
    qed
    then obtain m1 where miss: "getCacheItem objHash ?K now (snd s) = (Inr (Other JUndefined), m1)"
      by (cases "getCacheItem objHash ?K now (snd s)") simp
    show "fst (snd (wrap objHash target cacheOptions None parameters now now' s)) =
        snd (snd target parameters (fst s))"
      by (simp add: wrap_def miss split: prod.splits sum.splits)
    show "snd (snd (wrap objHash target cacheOptions None parameters now now' s)) =
        snd (set_value objHash ?K (fst (snd target parameters (fst s))) cacheOptions
          (Some parameters) now' (snd (getCacheItem objHash ?K now (snd s))))"
      by (simp add: wrap_def miss split: prod.splits sum.splits)
    show "fst (wrap objHash target None None parameters now now' s) =
        Inr (fst (snd target parameters (fst s)))"
      by (auto simp: wrap_def miss split: prod.splits sum.splits)
    assume "fst (set_value objHash ?K (fst (snd target parameters (fst s))) cacheOptions
          (Some parameters) now' (snd (getCacheItem objHash ?K now (snd s)))) = Inr ()"
    then show "fst (wrap objHash target cacheOptions None parameters now now' s) =
         Inr (fst (snd target parameters (fst s)))"
      by (auto simp: wrap_def miss split: prod.splits sum.splits)
  }
  {
    let ?A = "objHash (JArr [JStr f, JArr a])"
    assume "?A \<noteq> objHash ?K"
    then have other: "?A \<noteq> getHash objHash ?K"
      by (simp add: K)
    obtain r m1 where g: "getCacheItem objHash ?K now (snd s) = (r, m1)"
      by (cases "getCacheItem objHash ?K now (snd s)")
    have m1: "own (storage m1) ?A = own (storage (snd s)) ?A"
      using getCacheItem_own_other [OF other, of now "snd s"] by (simp add: g)
    have m1p: "objHash ?K \<noteq> ''__proto__'' \<Longrightarrow> proto (storage m1) = proto (storage (snd s))"
      using getCacheItem_proto [of objHash ?K now "snd s"] by (simp add: g K)
    let ?w = "wrap objHash target cacheOptions None parameters now now' s"
    have after: "snd (snd ?w) = m1 \<or>
        snd (snd ?w) = snd (set_value objHash ?K (fst (snd target parameters (fst s)))
          cacheOptions (Some parameters) now' m1)"
      by (auto simp: wrap_def g split: prod.splits sum.splits property.splits)
    show own: "own (storage (snd (snd ?w))) ?A = own (storage (snd s)) ?A"
      using after m1 set_value_own_other [OF other] by auto
    have proto: "objHash ?K \<noteq> ''__proto__'' \<Longrightarrow>
        proto (storage (snd (snd ?w))) = proto (storage (snd s))"
      using after m1p set_value_proto [of objHash ?K] by (auto simp: K)
    assume "mc_get (prototypeAccessed (snd s)) ?A (storage (snd s)) = Item e"
    then show "mc_get (prototypeAccessed (snd (snd ?w))) ?A (storage (snd (snd ?w))) = Item e"
      using own proto \<open>?A \<noteq> objHash ?K\<close> by (auto simp: mc_get_Item split: if_splits)
  }
qed

theorem wrap_spec_witness:
  "fst (wrap hashW (''f'', \<lambda>ps w. (JArr ps, w + 1)) None None [JNum 1] 5 5 (1 :: int, managerW)) =
     Inr (JObj 7) \<and>
   fst (snd (wrap hashW (''f'', \<lambda>ps w. (JArr ps, w + 1)) None None [JNum 1] 5 5
     (1 :: int, managerW))) = 1 \<and>
   fst (wrap hashW (''f'', \<lambda>ps w. (JArr ps, w + 1)) None None [JNum 2] 5 5 (1 :: int, managerW)) =
     Inr (JArr [JNum 2]) \<and>
   fst (snd (wrap hashW (''f'', \<lambda>ps w. (JArr ps, w + 1)) None None [JNum 2] 5 5
     (1 :: int, managerW))) = 2 \<and>
   own (storage (snd (snd (wrap hashW (''f'', \<lambda>ps w. (JArr ps, w + 1)) None None [JNum 2] 5 5
     (1 :: int, managerW))))) ''h1'' = Some itemW"
proof -
  have present: "mc_get (prototypeAccessed (snd (1 :: int, managerW)))
      (hashW (JArr [JStr (fst (''f'', \<lambda>ps w. (JArr ps, w + (1 :: int)))), JArr [JNum 1]]))
      (storage (snd (1 :: int, managerW))) = Item itemW \<and>
      \<not> expired 5 itemW (Some 5)"
    by (simp add: mc_get_def lookup_def expired_def)
  have absent: "(\<exists>x. mc_get (prototypeAccessed (snd (1 :: int, managerW)))
      (hashW (JArr [JStr (fst (''f'', \<lambda>ps w. (JArr ps, w + (1 :: int)))), JArr [JNum 2]]))
      (storage (snd (1 :: int, managerW))) = Other x \<and> \<not> truthy x) \<or>
      (\<exists>e. mc_get (prototypeAccessed (snd (1 :: int, managerW)))
      (hashW (JArr [JStr (fst (''f'', \<lambda>ps w. (JArr ps, w + (1 :: int)))), JArr [JNum 2]]))
      (storage (snd (1 :: int, managerW))) = Item e \<and> expired 5 e (Some 5))"
    by (simp add: mc_get_def lookup_def objectPrototype_def prototypeMethods_def)
  have differ: "hashW (JArr [JStr ''f'', JArr [JNum 1]]) \<noteq>
      hashW (JArr [JStr (fst (''f'', \<lambda>ps w. (JArr ps, w + (1 :: int)))), JArr [JNum 2]])"
    by simp
  note hit = wrap_spec [where objHash = hashW and target = "(''f'', \<lambda>ps w. (JArr ps, w + 1))"
      and cacheOptions = None and parameters = "[JNum 1]" and now = 5 and now' = 5
      and s = "(1 :: int, managerW)" and e = itemW,
      THEN conjunct2, THEN conjunct1, THEN mp, OF present]
  note miss = wrap_spec [where objHash = hashW and target = "(''f'', \<lambda>ps w. (JArr ps, w + 1))"
      and cacheOptions = None and parameters = "[JNum 2]" and now = 5 and now' = 5
      and s = "(1 :: int, managerW)",
      THEN conjunct2, THEN conjunct2, THEN conjunct1, THEN mp, OF absent]
  note apart = wrap_spec [where objHash = hashW and target = "(''f'', \<lambda>ps w. (JArr ps, w + 1))"
      and cacheOptions = None and parameters = "[JNum 2]" and now = 5 and now' = 5
      and s = "(1 :: int, managerW)" and f = "''f''" and a = "[JNum 1]",
      THEN conjunct2, THEN conjunct2, THEN conjunct2, THEN mp, OF differ, THEN conjunct1]
  show ?thesis
    using hit miss [THEN conjunct1] miss [THEN conjunct2, THEN conjunct2, THEN conjunct2] apart
    by simp
qed

section \<open>Rejected promises\<close>

lemma promise_written:
  "set_value hash0 (JStr ''k'') (JPromise 3) None None 0 empty_manager =
     (Inr (), empty_manager\<lparr>storage := \<lparr>own = [''k'' \<mapsto>
        \<lparr>key = JStr ''k'', val = JPromise 3, context = None, policyKey = JUndefined,
         maxAge = None, sliding = None, created = 0, accessed = 0\<rparr>], proto = None\<rparr>,
       catchHandlers := [(3, JStr ''k'')]\<rparr>)"
  by (simp add: write_defs)

lemma promise_written_again:
  "set_value hash0 (JStr ''k'') (JPromise 3) (Some (policy_of (MaxAgeNumber 100) (Some True))) None 1
     (empty_manager\<lparr>storage := \<lparr>own = [''k'' \<mapsto>
        \<lparr>key = JStr ''k'', val = JPromise 3, context = None, policyKey = JUndefined,
         maxAge = None, sliding = None, created = 0, accessed = 0\<rparr>], proto = None\<rparr>,
       catchHandlers := [(3, JStr ''k'')]\<rparr>) =
     (Inr (), empty_manager\<lparr>storage := \<lparr>own = [''k'' \<mapsto>
        \<lparr>key = JStr ''k'', val = JPromise 3, context = None, policyKey = JUndefined,
         maxAge = Some 100, sliding = None, created = 1, accessed = 1\<rparr>], proto = None\<rparr>,
       catchHandlers := [(3, JStr ''k'')]\<rparr>)"
  by (simp add: write_defs)

text \<open>
  Claim C9 says that a write of a promise under a policy with keepRejectedPromise keeps
  the entry whatever becomes of the promise, and that every write of a promise without
  it attaches a handler. Neither holds as stated. A handler that an earlier write
  attached to the same promise for the same key still runs when the promise rejects, and
  removes the entry that the later write stored with keepRejectedPromise. And a write
  that the number 0 as maxAge turns into a no-op returns before the handler is attached.
\<close>

theorem rejected_promise_counterexample:
  "own (storage (snd (set_value hash0 (JStr ''k'') (JPromise 3)
       (Some (policy_of (MaxAgeNumber 100) (Some True))) None 1
       (snd (set_value hash0 (JStr ''k'') (JPromise 3) None None 0 empty_manager))))) ''k'' =
     Some \<lparr>key = JStr ''k'', val = JPromise 3, context = None, policyKey = JUndefined,
           maxAge = Some 100, sliding = None, created = 1, accessed = 1\<rparr> \<and>
   own (storage (rejects hash0 3
     (snd (set_value hash0 (JStr ''k'') (JPromise 3)
       (Some (policy_of (MaxAgeNumber 100) (Some True))) None 1
       (snd (set_value hash0 (JStr ''k'') (JPromise 3) None None 0 empty_manager)))))) ''k'' = None \<and>
   catchHandlers (snd (set_value hash0 (JStr ''k'') (JPromise 3)
       (Some (policy_of (MaxAgeNumber 0) None)) None 0 empty_manager)) = []"
  unfolding promise_written promise_written_again snd_conv
  by (simp add: rejects_def remove_item_def read_defs write_defs)

text \<open>
  Claim C9, as amended. For a write of a promise that returns, under a key whose hash is
  not \<open>__proto__\<close>, and with a resolved policy, if any, whose maxAge (the number, or
  the result of the function) is not 0: without keepRejectedPromise, the handler
  \<open>(p, key)\<close> is attached, and once the promise has rejected the storage has no entry
  for the key, so that a read under an ordinary hash is a miss; with
  keepRejectedPromise no handler is attached, and the entry stays where it is when the
  promise rejects, provided no handler attached to the promise before this write
  removes the same hash. Nothing is said of a maxAge function that returns 0, of a call
  of set that throws, or of the key \<open>__proto__\<close>.
\<close>

theorem rejected_promise_evicted:
  assumes returns: "fst (set_value objHash k (JPromise p) options parameters now m) = Inr ()"
    and nonzero: "case resolve_policy objHash options m of
                    Item pol \<Rightarrow>
                      (case p_maxAge pol of
                         MaxAgeNumber n \<Rightarrow> n \<noteq> 0
                       | MaxAgeFunction f \<Rightarrow> f (call_args parameters) \<noteq> 0)
                  | Other x \<Rightarrow> True"
    and plain: "getHash objHash k \<noteq> ''__proto__''"
  shows
    "((\<forall>pol. resolve_policy objHash options m = Item pol \<longrightarrow>
          keepRejectedPromise pol \<noteq> Some True) \<longrightarrow>
        catchHandlers (snd (set_value objHash k (JPromise p) options parameters now m)) =
          catchHandlers m @ [(p, k)] \<and>
        own (storage (rejects objHash p
          (snd (set_value objHash k (JPromise p) options parameters now m))))
          (getHash objHash k) = None \<and>
        (ordinary m (getHash objHash k) \<longrightarrow>
           fst (getCacheItem objHash k now'
             (rejects objHash p (snd (set_value objHash k (JPromise p) options parameters now m)))) =
           Inr (Other JUndefined))) \<and>
     ((\<exists>pol. resolve_policy objHash options m = Item pol \<and>
          keepRejectedPromise pol = Some True) \<longrightarrow>
        catchHandlers (snd (set_value objHash k (JPromise p) options parameters now m)) =
          catchHandlers m \<and>
        ((\<forall>h \<in> set (catchHandlers m). fst h = p \<longrightarrow>
            getHash objHash (snd h) \<noteq> getHash objHash k) \<longrightarrow>
           (\<exists>i. own (storage (rejects objHash p
                   (snd (set_value objHash k (JPromise p) options parameters now m))))
                 (getHash objHash k) = Some i \<and> val i = JPromise p \<and>
                own (storage (snd (set_value objHash k (JPromise p) options parameters now m)))
                 (getHash objHash k) = Some i)))"
proof -
  let ?m' = "snd (set_value objHash k (JPromise p) options parameters now m)"
  have stored: "case resolve_policy objHash options m of
             Item p \<Rightarrow> p_maxAge p \<noteq> MaxAgeNumber 0
           | Other x \<Rightarrow> classify x = Falsy"
    using nonzero set_value_returns [OF returns]
    by (auto split: property.splits max_age.splits)
  from set_value_entry [OF stored, of k "JPromise p" parameters now]
  obtain i where i: "storage ?m' = assign (storage m) (getHash objHash k) i"
    "prototypeAccessed ?m' = prototypeAccessed m" "val i = JPromise p"
    by blast
  have own_i: "own (storage ?m') (getHash objHash k) = Some i"
    using plain by (simp add: i(1) assign_def)
  have proto_i: "proto (storage ?m') = proto (storage m)"
    using plain by (simp add: i(1) assign_def)
  show ?thesis
  proof (intro conjI impI)
    assume nokeep: "\<forall>pol. resolve_policy objHash options m = Item pol \<longrightarrow>
          keepRejectedPromise pol \<noteq> Some True"
    show h: "catchHandlers ?m' = catchHandlers m @ [(p, k)]"
      using nokeep by (simp add: set_value_catchHandlers [OF stored] catch_remove_def)
    show gone: "own (storage (rejects objHash p ?m')) (getHash objHash k) = None"
      by (rule rejects_evicts) (simp add: h)
    assume "ordinary m (getHash objHash k)"
    then have "getCacheItem objHash k now' (rejects objHash p ?m') =
        (Inr (Other JUndefined), rejects objHash p ?m')"
      by (rule miss_after_removal) (simp_all add: gone proto_i i(2))
    then show "fst (getCacheItem objHash k now' (rejects objHash p ?m')) = Inr (Other JUndefined)"
      by simp
  next
    assume keep: "\<exists>pol. resolve_policy objHash options m = Item pol \<and>
          keepRejectedPromise pol = Some True"
    show h: "catchHandlers ?m' = catchHandlers m"
      using keep by (simp add: set_value_catchHandlers [OF stored])
    assume other: "\<forall>h \<in> set (catchHandlers m). fst h = p \<longrightarrow>
            getHash objHash (snd h) \<noteq> getHash objHash k"
    have "own (storage (rejects objHash p ?m')) (getHash objHash k) =
        own (storage ?m') (getHash objHash k)"
      by (rule rejects_keeps) (simp add: h other)
    then show "\<exists>i. own (storage (rejects objHash p ?m')) (getHash objHash k) = Some i \<and>
        val i = JPromise p \<and> own (storage ?m') (getHash objHash k) = Some i"
      using own_i i(3) by simp
  qed
qed

lemma drop_written:
  "set_value hash0 (JStr ''k'') (JPromise 3) (Some (policy_of (MaxAgeNumber 100) None)) None 0
     empty_manager =
     (Inr (), empty_manager\<lparr>storage := \<lparr>own = [''k'' \<mapsto>
        \<lparr>key = JStr ''k'', val = JPromise 3, context = None, policyKey = JUndefined,
         maxAge = Some 100, sliding = None, created = 0, accessed = 0\<rparr>], proto = None\<rparr>,
       catchHandlers := [(3, JStr ''k'')]\<rparr>)"
  by (simp add: write_defs)

lemma keep_written:
  "set_value hash0 (JStr ''k'') (JPromise 3) (Some (policy_of (MaxAgeNumber 100) (Some True))) None 0
     empty_manager =
     (Inr (), empty_manager\<lparr>storage := \<lparr>own = [''k'' \<mapsto>
        \<lparr>key = JStr ''k'', val = JPromise 3, context = None, policyKey = JUndefined,
         maxAge = Some 100, sliding = None, created = 0, accessed = 0\<rparr>], proto = None\<rparr>\<rparr>)"
  by (simp add: write_defs)

theorem rejected_promise_evicted_witness:
  "catchHandlers (snd (set_value hash0 (JStr ''k'') (JPromise 3)
       (Some (policy_of (MaxAgeNumber 100) None)) None 0 empty_manager)) = [(3, JStr ''k'')] \<and>
   own (storage (rejects hash0 3 (snd (set_value hash0 (JStr ''k'') (JPromise 3)
       (Some (policy_of (MaxAgeNumber 100) None)) None 0 empty_manager)))) ''k'' = None \<and>
   fst (getCacheItem hash0 (JStr ''k'') 5 (rejects hash0 3 (snd (set_value hash0 (JStr ''k'')
       (JPromise 3) (Some (policy_of (MaxAgeNumber 100) None)) None 0 empty_manager)))) =
     Inr (Other JUndefined) \<and>
   catchHandlers (snd (set_value hash0 (JStr ''k'') (JPromise 3)
       (Some (policy_of (MaxAgeNumber 100) (Some True))) None 0 empty_manager)) = [] \<and>
   (\<exists>i. own (storage (rejects hash0 3 (snd (set_value hash0 (JStr ''k'') (JPromise 3)
       (Some (policy_of (MaxAgeNumber 100) (Some True))) None 0 empty_manager)))) ''k'' = Some i \<and>
       val i = JPromise 3)"
proof -
  have drop_returns: "fst (set_value hash0 (JStr ''k'') (JPromise 3)
      (Some (policy_of (MaxAgeNumber 100) None)) None 0 empty_manager) = Inr ()"
    by (simp add: drop_written)
  have keep_returns: "fst (set_value hash0 (JStr ''k'') (JPromise 3)
      (Some (policy_of (MaxAgeNumber 100) (Some True))) None 0 empty_manager) = Inr ()"
    by (simp add: keep_written)
  have drop_nonzero: "case resolve_policy hash0 (Some (policy_of (MaxAgeNumber 100) None))
        empty_manager of
      Item pol \<Rightarrow> (case p_maxAge pol of MaxAgeNumber n \<Rightarrow> n \<noteq> 0
                    | MaxAgeFunction f \<Rightarrow> f (call_args None) \<noteq> 0)
    | Other x \<Rightarrow> True"
    by (simp add: resolve_policy_def)
  have keep_nonzero: "case resolve_policy hash0 (Some (policy_of (MaxAgeNumber 100) (Some True)))
        empty_manager of
      Item pol \<Rightarrow> (case p_maxAge pol of MaxAgeNumber n \<Rightarrow> n \<noteq> 0
                    | MaxAgeFunction f \<Rightarrow> f (call_args None) \<noteq> 0)
    | Other x \<Rightarrow> True"
    by (simp add: resolve_policy_def)
  have plain: "getHash hash0 (JStr ''k'') \<noteq> ''__proto__''"
    by (simp add: getHash_def)
  have drop_nokeep: "\<forall>pol. resolve_policy hash0 (Some (policy_of (MaxAgeNumber 100) None))
      empty_manager = Item pol \<longrightarrow> keepRejectedPromise pol \<noteq> Some True"
    by (simp add: resolve_policy_def)
  have keep_keep: "\<exists>pol. resolve_policy hash0 (Some (policy_of (MaxAgeNumber 100) (Some True)))
      empty_manager = Item pol \<and> keepRejectedPromise pol = Some True"
    by (simp add: resolve_policy_def)
  have no_handlers: "\<forall>h \<in> set (catchHandlers empty_manager). fst h = 3 \<longrightarrow>
      getHash hash0 (snd h) \<noteq> getHash hash0 (JStr ''k'')"
    by simp
  have ord: "ordinary empty_manager (getHash hash0 (JStr ''k''))"
    by (simp add: ordinary_def lookup_def delete_def objectPrototype_def prototypeMethods_def
        getHash_def)
  note dropped = rejected_promise_evicted [OF drop_returns drop_nonzero plain, where now' = 5,
      THEN conjunct1, THEN mp, OF drop_nokeep]
  note read = dropped [THEN conjunct2, THEN conjunct2, THEN mp, OF ord]
  note kept = rejected_promise_evicted [OF keep_returns keep_nonzero plain, where now' = 5,
      THEN conjunct2, THEN mp, OF keep_keep]
  note kept_entry = kept [THEN conjunct2, THEN mp, OF no_handlers]
  show ?thesis
    using dropped [THEN conjunct1] dropped [THEN conjunct2, THEN conjunct1] read
      kept [THEN conjunct1] kept_entry
    by (auto simp: getHash_def)
qed

end
